theory Spec2Isabelle
  imports Complex_Main
begin

section \<open>ARIEL core: a shallow embedding of \<open>src/core/ariel_algorithm.py\<close>\<close>

text \<open>
  Python floats are modelled as \<^typ>\<open>real\<close>: rounding, infinities and NaN are outside the
  model. Every \<open>raise\<close> of the source is a value \<open>Inl e\<close> of a sum type. Calls of
  \<open>time.time()\<close> are inputs of the model.
\<close>

datatype py_error =
  ValueError | TypeError | AttributeError | KeyError | ZeroDivisionError | NotANumber

subsection \<open>Strings\<close>

text \<open>\<open>s.startswith(p)\<close>.\<close>

fun startswith :: "string \<Rightarrow> string \<Rightarrow> bool" where
  "startswith s [] = True"
| "startswith [] (p # ps) = False"
| "startswith (c # cs) (p # ps) = (c = p \<and> startswith cs ps)"

text \<open>\<open>k in s\<close> for two strings: \<open>k\<close> occurs in \<open>s\<close> as a contiguous substring.\<close>

fun str_in :: "string \<Rightarrow> string \<Rightarrow> bool" where
  "str_in k [] = (k = [])"
| "str_in k (c # cs) = (startswith (c # cs) k \<or> str_in k cs)"

text \<open>\<open>s.replace('_', ' ')\<close>.\<close>

definition replace_underscore :: "string \<Rightarrow> string" where
  "replace_underscore s = map (\<lambda>c. if c = CHR ''_'' then CHR '' '' else c) s"

subsection \<open>EmotionalState\<close>

record emotional_state =
  joy :: real
  sadness :: real
  fear :: real
  anger :: real
  trust :: real
  disgust :: real
  anticipation :: real
  surprise :: real
  stability :: real
  adaptability :: real
  social_alignment :: real

definition update_derived_metrics :: "emotional_state \<Rightarrow> emotional_state" where
  "update_derived_metrics es =
     es\<lparr>stability := (joy es + trust es - fear es - anger es) / 2,
        adaptability := (anticipation es + surprise es - sadness es) / 2,
        social_alignment := trust es - disgust es\<rparr>"

text \<open>
  The dataclass constructor with explicit intensities; the three derived fields are
  \<open>field(init=False)\<close> and exist only once \<open>__post_init__\<close> has computed them.
\<close>

definition EmotionalState ::
  "real \<Rightarrow> real \<Rightarrow> real \<Rightarrow> real \<Rightarrow> real \<Rightarrow> real \<Rightarrow> real \<Rightarrow> real \<Rightarrow> emotional_state" where
  "EmotionalState j sa f an t d ap su =
     update_derived_metrics
       \<lparr>joy = j, sadness = sa, fear = f, anger = an, trust = t, disgust = d,
        anticipation = ap, surprise = su,
        stability = 0, adaptability = 0, social_alignment = 0\<rparr>"

definition default_emotional_state :: emotional_state where
  "default_emotional_state = EmotionalState 50 50 50 50 50 50 50 50"

text \<open>The list the decay loop of \<open>update_emotion\<close> runs over.\<close>

definition emotion_names :: "string list" where
  "emotion_names =
     [''joy'', ''sadness'', ''fear'', ''anger'', ''trust'', ''disgust'',
      ''anticipation'', ''surprise'']"

text \<open>
  Attribute lookup by name, as \<open>hasattr\<close>/\<open>getattr\<close> see an \<open>EmotionalState\<close>
  instance: the eleven float fields, the methods of the class body, and the attributes
  every dataclass instance inherits from Python's \<open>object\<close> and the \<open>dataclass\<close>
  decorator (none of which is a number).
\<close>

datatype attr = AFloat real | AOther

definition es_method_names :: "string list" where
  "es_method_names =
     [''__post_init__'', ''update_derived_metrics'', ''update_emotion'',
      ''get_dominant_emotion'', ''get_emotional_vector'', ''emotional_distance'']"

definition object_attr_names :: "string list" where
  "object_attr_names =
     [''__annotations__'', ''__class__'', ''__dataclass_fields__'',
      ''__dataclass_params__'', ''__delattr__'', ''__dict__'', ''__dir__'', ''__doc__'',
      ''__eq__'', ''__format__'', ''__ge__'', ''__getattribute__'', ''__getstate__'',
      ''__gt__'', ''__hash__'', ''__init__'', ''__init_subclass__'', ''__le__'',
      ''__lt__'', ''__match_args__'', ''__module__'', ''__ne__'', ''__new__'',
      ''__reduce__'', ''__reduce_ex__'', ''__repr__'', ''__setattr__'', ''__sizeof__'',
      ''__str__'', ''__subclasshook__'', ''__weakref__'']"

definition getattr_es :: "emotional_state \<Rightarrow> string \<Rightarrow> attr option" where
  "getattr_es es n =
     (if n = ''joy'' then Some (AFloat (joy es))
      else if n = ''sadness'' then Some (AFloat (sadness es))
      else if n = ''fear'' then Some (AFloat (fear es))
      else if n = ''anger'' then Some (AFloat (anger es))
      else if n = ''trust'' then Some (AFloat (trust es))
      else if n = ''disgust'' then Some (AFloat (disgust es))
      else if n = ''anticipation'' then Some (AFloat (anticipation es))
      else if n = ''surprise'' then Some (AFloat (surprise es))
      else if n = ''stability'' then Some (AFloat (stability es))
      else if n = ''adaptability'' then Some (AFloat (adaptability es))
      else if n = ''social_alignment'' then Some (AFloat (social_alignment es))
      else if n \<in> set es_method_names \<or> n \<in> set object_attr_names then Some AOther
      else None)"

text \<open>
  \<open>setattr\<close> on one of the float fields. \<open>update_emotion\<close> reaches \<open>setattr\<close> only
  with such a name (for any other attribute \<open>current + value\<close> has raised before), so
  the last branch is never taken.
\<close>

definition setattr_es :: "emotional_state \<Rightarrow> string \<Rightarrow> real \<Rightarrow> emotional_state" where
  "setattr_es es n v =
     (if n = ''joy'' then es\<lparr>joy := v\<rparr>
      else if n = ''sadness'' then es\<lparr>sadness := v\<rparr>
      else if n = ''fear'' then es\<lparr>fear := v\<rparr>
      else if n = ''anger'' then es\<lparr>anger := v\<rparr>
      else if n = ''trust'' then es\<lparr>trust := v\<rparr>
      else if n = ''disgust'' then es\<lparr>disgust := v\<rparr>
      else if n = ''anticipation'' then es\<lparr>anticipation := v\<rparr>
      else if n = ''surprise'' then es\<lparr>surprise := v\<rparr>
      else if n = ''stability'' then es\<lparr>stability := v\<rparr>
      else if n = ''adaptability'' then es\<lparr>adaptability := v\<rparr>
      else if n = ''social_alignment'' then es\<lparr>social_alignment := v\<rparr>
      else es)"

text \<open>\<open>getattr(self, e)\<close> for \<open>e\<close> one of the eight intensities, which are floats.\<close>

definition get_emotion :: "emotional_state \<Rightarrow> string \<Rightarrow> real" where
  "get_emotion es e = (case getattr_es es e of Some (AFloat x) \<Rightarrow> x | _ \<Rightarrow> 0)"

text \<open>One round of the decay loop: \<open>if e != emotion: setattr(self, e, current * decay_factor)\<close>.\<close>

definition decay_step :: "string \<Rightarrow> real \<Rightarrow> string \<Rightarrow> emotional_state \<Rightarrow> emotional_state" where
  "decay_step emotion decay_factor e es =
     (if e \<noteq> emotion then setattr_es es e (get_emotion es e * decay_factor) else es)"

text \<open>
  \<open>update_emotion\<close>: \<open>ValueError\<close> when \<open>hasattr\<close> fails; for an attribute that is
  not a number, \<open>current + value\<close> raises \<open>TypeError\<close>, before any assignment.
\<close>

definition update_emotion ::
  "emotional_state \<Rightarrow> string \<Rightarrow> real \<Rightarrow> real \<Rightarrow> py_error + emotional_state" where
  "update_emotion es emotion v decay_factor =
     (case getattr_es es emotion of
        None \<Rightarrow> Inl ValueError
      | Some AOther \<Rightarrow> Inl TypeError
      | Some (AFloat current) \<Rightarrow>
          Inr (update_derived_metrics
                 (fold (decay_step emotion decay_factor) emotion_names
                    (setattr_es es emotion (max 0 (min 100 (current + v)))))))"

subsection \<open>IncentiveSystem\<close>

record incentive_system =
  curiosity_reward :: real
  efficiency_reward :: real
  cooperation_reward :: real
  innovation_reward :: real
  error_penalty :: real
  resource_waste_penalty :: real
  conflict_penalty :: real
  stagnation_penalty :: real
  reward_scaling :: real
  penalty_scaling :: real
  reward_history :: "(string \<times> real \<times> real) list"

definition default_incentive_system :: incentive_system where
  "default_incentive_system =
     \<lparr>curiosity_reward = 5, efficiency_reward = 3, cooperation_reward = 4,
      innovation_reward = 6, error_penalty = -3, resource_waste_penalty = -4,
      conflict_penalty = -5, stagnation_penalty = -2,
      reward_scaling = 1, penalty_scaling = 1, reward_history = []\<rparr>"

definition is_method_names :: "string list" where
  "is_method_names =
     [''apply_reward'', ''apply_penalty'', ''get_recent_rewards'', ''get_total_reward'',
      ''adapt_incentives'']"

text \<open>Attribute lookup on an \<open>IncentiveSystem\<close> instance; \<open>reward_history\<close> is a list.\<close>

definition getattr_is :: "incentive_system \<Rightarrow> string \<Rightarrow> attr option" where
  "getattr_is isys n =
     (if n = ''curiosity_reward'' then Some (AFloat (curiosity_reward isys))
      else if n = ''efficiency_reward'' then Some (AFloat (efficiency_reward isys))
      else if n = ''cooperation_reward'' then Some (AFloat (cooperation_reward isys))
      else if n = ''innovation_reward'' then Some (AFloat (innovation_reward isys))
      else if n = ''error_penalty'' then Some (AFloat (error_penalty isys))
      else if n = ''resource_waste_penalty'' then Some (AFloat (resource_waste_penalty isys))
      else if n = ''conflict_penalty'' then Some (AFloat (conflict_penalty isys))
      else if n = ''stagnation_penalty'' then Some (AFloat (stagnation_penalty isys))
      else if n = ''reward_scaling'' then Some (AFloat (reward_scaling isys))
      else if n = ''penalty_scaling'' then Some (AFloat (penalty_scaling isys))
      else if n = ''reward_history'' \<or> n \<in> set is_method_names \<or> n \<in> set object_attr_names
        then Some AOther
      else None)"

text \<open>Two consecutive \<open>update_emotion\<close> calls with the default decay factor 0.9.\<close>

definition update_two ::
  "emotional_state \<Rightarrow> string \<Rightarrow> real \<Rightarrow> string \<Rightarrow> real \<Rightarrow> py_error + emotional_state" where
  "update_two es e1 v1 e2 v2 =
     (case update_emotion es e1 v1 0.9 of
        Inl err \<Rightarrow> Inl err
      | Inr es1 \<Rightarrow> update_emotion es1 e2 v2 0.9)"

text \<open>
  \<open>apply_reward\<close>; \<open>now\<close> is the value of \<open>time.time()\<close> at the call. The result is the
  scaled reward with the incentive system and the emotional state as the call leaves them.
  For an attribute that is not a number (\<open>reward_type = "apply"\<close> names the method
  \<open>apply_reward\<close>) the product \<open>base_reward * magnitude\<close> raises \<open>TypeError\<close>.
\<close>

definition apply_reward ::
  "incentive_system \<Rightarrow> string \<Rightarrow> real \<Rightarrow> real \<Rightarrow> emotional_state
     \<Rightarrow> py_error + (real \<times> incentive_system \<times> emotional_state)" where
  "apply_reward isys reward_type magnitude now es =
     (case getattr_is isys (reward_type @ ''_reward'') of
        None \<Rightarrow> Inl ValueError
      | Some AOther \<Rightarrow> Inl TypeError
      | Some (AFloat base_reward) \<Rightarrow>
          (let scaled_reward = base_reward * magnitude * reward_scaling isys;
               isys' = isys\<lparr>reward_history :=
                               reward_history isys @ [(reward_type, scaled_reward, now)]\<rparr>;
               r = (if reward_type = ''curiosity''
                      then update_two es ''surprise'' (scaled_reward * 0.5)
                                         ''joy'' (scaled_reward * 0.3)
                    else if reward_type = ''efficiency''
                      then update_two es ''joy'' (scaled_reward * 0.4)
                                         ''trust'' (scaled_reward * 0.2)
                    else if reward_type = ''cooperation''
                      then update_two es ''trust'' (scaled_reward * 0.5)
                                         ''joy'' (scaled_reward * 0.2)
                    else if reward_type = ''innovation''
                      then update_two es ''surprise'' (scaled_reward * 0.3)
                                         ''joy'' (scaled_reward * 0.4)
                    else Inr es)
           in case r of
                Inl err \<Rightarrow> Inl err
              | Inr es' \<Rightarrow> Inr (scaled_reward, isys', es')))"

text \<open>
  \<open>get_recent_rewards\<close>; \<open>current_time\<close> is the value of \<open>time.time()\<close> at the call.
  The method only reads \<open>reward_history\<close>: it is a function of the system, which it
  leaves as it is.
\<close>

definition get_recent_rewards ::
  "incentive_system \<Rightarrow> real \<Rightarrow> real \<Rightarrow> (string \<times> real) list" where
  "get_recent_rewards isys current_time time_window =
     map (\<lambda>(reward_type, v, timestamp). (reward_type, v))
       (filter (\<lambda>(reward_type, v, timestamp). current_time - timestamp \<le> time_window)
          (reward_history isys))"

subsection \<open>SelfHealingSystem\<close>

text \<open>
  The part of \<open>ARIELAgent\<close> the recovery strategies write to. The agent's memory bank
  (\<open>QuantumMemoryBank\<close>: random noise, optional quantum circuits) is not modelled; the
  strategies' calls into it touch neither the error log nor the health metrics.
\<close>

record agent =
  emotional_state :: emotional_state
  decision_threshold :: real
  exploration_rate :: real

definition ARIELAgent :: agent where
  "ARIELAgent =
     \<lparr>emotional_state = default_emotional_state, decision_threshold = 0.6,
      exploration_rate = 0.1\<rparr>"

record error_record =
  e_type :: string
  e_severity :: real
  e_timestamp :: real
  e_details :: "(string \<times> string) list"
  healed :: bool

text \<open>
  \<open>health_metrics\<close> is a dict with five keys, fixed at construction and only ever
  assigned to; \<open>health_items\<close> lists it in the dict's (insertion) order.
\<close>

record metrics =
  memory_integrity :: real
  emotional_balance :: real
  resource_efficiency :: real
  decision_quality :: real
  communication_reliability :: real

definition health_items :: "metrics \<Rightarrow> (string \<times> real) list" where
  "health_items hm =
     [(''memory_integrity'', memory_integrity hm),
      (''emotional_balance'', emotional_balance hm),
      (''resource_efficiency'', resource_efficiency hm),
      (''decision_quality'', decision_quality hm),
      (''communication_reliability'', communication_reliability hm)]"

record self_healing =
  agent :: agent
  error_log :: "error_record list"
  health_metrics :: metrics

definition SelfHealingSystem :: "agent \<Rightarrow> self_healing" where
  "SelfHealingSystem ag =
     \<lparr>agent = ag, error_log = [],
      health_metrics =
        \<lparr>memory_integrity = 100, emotional_balance = 100, resource_efficiency = 100,
         decision_quality = 100, communication_reliability = 100\<rparr>\<rparr>"

text \<open>\<open>append\<close> on a \<open>deque(maxlen=n)\<close>: a full deque drops its oldest element.\<close>

definition deque_append :: "nat \<Rightarrow> 'a list \<Rightarrow> 'a \<Rightarrow> 'a list" where
  "deque_append maxlen xs x = (if length xs < maxlen then xs @ [x] else tl xs @ [x])"

text \<open>\<open>log_error\<close>; \<open>now\<close> is the value of \<open>time.time()\<close> at the call.\<close>

definition log_error ::
  "self_healing \<Rightarrow> string \<Rightarrow> real \<Rightarrow> (string \<times> string) list \<Rightarrow> real \<Rightarrow> self_healing" where
  "log_error s error_type severity details now =
     (let s1 = s\<lparr>error_log :=
                   deque_append 100 (error_log s)
                     \<lparr>e_type = error_type, e_severity = severity, e_timestamp = now,
                      e_details = details, healed = False\<rparr>\<rparr>;
          hm = health_metrics s1
      in if error_type \<in> set [''memory_corruption'', ''memory_leak'']
           then s1\<lparr>health_metrics :=
                     hm\<lparr>memory_integrity := max 0 (memory_integrity hm - severity)\<rparr>\<rparr>
         else if error_type \<in> set [''emotional_instability'', ''emotional_deadlock'']
           then s1\<lparr>health_metrics :=
                     hm\<lparr>emotional_balance := max 0 (emotional_balance hm - severity)\<rparr>\<rparr>
         else if error_type \<in> set [''resource_depletion'', ''resource_contention'']
           then s1\<lparr>health_metrics :=
                     hm\<lparr>resource_efficiency := max 0 (resource_efficiency hm - severity)\<rparr>\<rparr>
         else if error_type \<in> set [''decision_paralysis'', ''decision_oscillation'']
           then s1\<lparr>health_metrics :=
                     hm\<lparr>decision_quality := max 0 (decision_quality hm - severity)\<rparr>\<rparr>
         else if error_type \<in> set [''communication_failure'', ''protocol_violation'']
           then s1\<lparr>health_metrics :=
                     hm\<lparr>communication_reliability :=
                          max 0 (communication_reliability hm - severity)\<rparr>\<rparr>
         else s1)"

text \<open>An entry of the list \<open>diagnose\<close> returns; only recurring issues carry a count.\<close>

record issue =
  i_type :: string
  i_severity :: real
  i_count :: "nat option"
  i_description :: string

definition critical_issue :: "string \<times> real \<Rightarrow> issue" where
  "critical_issue mv =
     (case mv of (metric, v) \<Rightarrow>
        \<lparr>i_type = ''critical_'' @ metric,
         i_severity = (50 - v) / 50 * 10,
         i_count = None,
         i_description = ''Critical '' @ replace_underscore metric @ '' issue detected''\<rparr>)"

definition critical_issues :: "metrics \<Rightarrow> issue list" where
  "critical_issues hm =
     map critical_issue (filter (\<lambda>(metric, v). v < 50) (health_items hm))"

text \<open>
  \<open>error_counts\<close>: a dict from error type to count and total severity, in insertion
  order (the order in which the types first occur among the unhealed entries).
\<close>

type_synonym error_counts = "(string \<times> nat \<times> real) list"

definition count_error :: "error_record \<Rightarrow> error_counts \<Rightarrow> error_counts" where
  "count_error e ec =
     (if \<not> healed e then
        (let ec1 = (if e_type e \<notin> set (map fst ec) then ec @ [(e_type e, 0, 0)] else ec)
         in map (\<lambda>(t, c, ts). if t = e_type e then (t, c + 1, ts + e_severity e)
                               else (t, c, ts)) ec1)
      else ec)"

definition error_counts_of :: "error_record list \<Rightarrow> error_counts" where
  "error_counts_of entries = fold count_error entries []"

definition recurring_issue :: "string \<times> nat \<times> real \<Rightarrow> issue" where
  "recurring_issue d =
     (case d of (error_type, c, total_severity) \<Rightarrow>
        \<lparr>i_type = ''recurring_'' @ error_type,
         i_severity = total_severity / real c,
         i_count = Some c,
         i_description = ''Recurring '' @ replace_underscore error_type @ '' detected''\<rparr>)"

definition recurring_issues :: "error_counts \<Rightarrow> issue list" where
  "recurring_issues ec = map recurring_issue (filter (\<lambda>(t, c, ts). 3 \<le> c) ec)"

text \<open>The issues in the order \<open>diagnose\<close> discovers them, before sorting.\<close>

definition discovered_issues :: "self_healing \<Rightarrow> issue list" where
  "discovered_issues s =
     critical_issues (health_metrics s) @ recurring_issues (error_counts_of (error_log s))"

text \<open>
  \<open>sorted(issues, key=severity, reverse=True)\<close>: Python's sort is stable, also with
  \<open>reverse=True\<close>; \<open>sort_key\<close> is a stable insertion sort, here on the negated key.
\<close>

definition diagnose :: "self_healing \<Rightarrow> issue list" where
  "diagnose s = sort_key (\<lambda>i. - i_severity i) (discovered_issues s)"

subsection \<open>Recovery strategies and \<open>heal\<close>\<close>

text \<open>
  A strategy takes the severity of the issue and returns its outcome string; the state
  is passed explicitly. The strategies are coroutines awaited one after the other, so
  \<open>heal\<close> is sequential; the \<open>asyncio.sleep\<close> calls change no state.
\<close>

type_synonym strategy = "self_healing \<Rightarrow> real \<Rightarrow> py_error + (string \<times> self_healing)"

text \<open>
  \<open>_heal_memory_corruption\<close>. Its calls into the agent's memory bank
  (\<open>optimize_layout\<close>, the scrub and restore for severity above 7) are outside the model.
\<close>

definition heal_memory_corruption :: strategy where
  "heal_memory_corruption s severity =
     (let hm = health_metrics s in
      if severity > 7.0
        then Inr (''Deep memory healing performed'',
                  s\<lparr>health_metrics :=
                      hm\<lparr>memory_integrity := memory_integrity hm + min 30 (severity * 3)\<rparr>\<rparr>)
        else Inr (''Memory layout optimization performed'',
                  s\<lparr>health_metrics :=
                      hm\<lparr>memory_integrity := memory_integrity hm + min 15 (severity * 2)\<rparr>\<rparr>))"

text \<open>\<open>np.median\<close> of a non-empty list.\<close>

definition median :: "real list \<Rightarrow> real" where
  "median xs =
     (let ys = sort xs; n = length ys
      in if even n then (ys ! (n div 2 - 1) + ys ! (n div 2)) / 2 else ys ! (n div 2))"

text \<open>Python's \<open>repr\<close> of a list of strings (without quotes or backslashes in them).\<close>

fun join_strs :: "string \<Rightarrow> string list \<Rightarrow> string" where
  "join_strs sep [] = []"
| "join_strs sep [x] = x"
| "join_strs sep (x # y # ys) = x @ sep @ join_strs sep (y # ys)"

definition repr_str_list :: "string list \<Rightarrow> string" where
  "repr_str_list xs =
     ''['' @ join_strs '', '' (map (\<lambda>x. [CHR 0x27] @ x @ [CHR 0x27]) xs) @ '']''"

text \<open>One round of the rebalancing loop; an exception ends the loop.\<close>

definition rebalance_step ::
  "real \<Rightarrow> real \<Rightarrow> string \<times> real \<Rightarrow> py_error + emotional_state
     \<Rightarrow> py_error + emotional_state" where
  "rebalance_step median_value severity ed r =
     (case r of
        Inl err \<Rightarrow> Inl err
      | Inr es \<Rightarrow>
          (case ed of (emotion, deviation) \<Rightarrow>
             update_emotion es emotion
               ((median_value - get_emotion es emotion) * min 0.5 (severity / 10)) 0.9))"

definition heal_emotional_instability :: strategy where
  "heal_emotional_instability s severity =
     (let es = emotional_state (agent s);
          emotions = map (\<lambda>e. (e, get_emotion es e)) emotion_names;
          median_value = median (map snd emotions);
          deviations = map (\<lambda>(e, v). (e, \<bar>v - median_value\<bar>)) emotions;
          extreme_emotions = take 3 (sort_key (\<lambda>(e, d). - d) deviations)
      in case fold (rebalance_step median_value severity) extreme_emotions (Inr es) of
           Inl err \<Rightarrow> Inl err
         | Inr es' \<Rightarrow>
             (let hm = health_metrics s in
              Inr (''Emotional rebalancing performed on ''
                     @ repr_str_list (map fst extreme_emotions),
                   s\<lparr>agent := (agent s)\<lparr>emotional_state := es'\<rparr>,
                     health_metrics :=
                       hm\<lparr>emotional_balance :=
                            emotional_balance hm + min 25 (severity * 2.5)\<rparr>\<rparr>)))"

definition heal_resource_depletion :: strategy where
  "heal_resource_depletion s severity =
     (let hm = health_metrics s in
      if severity > 5.0
        then Inr (''Major resource reallocation performed'',
                  s\<lparr>health_metrics :=
                      hm\<lparr>resource_efficiency :=
                           resource_efficiency hm + min 20 (severity * 2)\<rparr>\<rparr>)
        else Inr (''Resource usage optimization performed'',
                  s\<lparr>health_metrics :=
                      hm\<lparr>resource_efficiency :=
                           resource_efficiency hm + min 10 severity\<rparr>\<rparr>))"

definition heal_decision_paralysis :: strategy where
  "heal_decision_paralysis s severity =
     (let s1 = s\<lparr>agent := (agent s)\<lparr>decision_threshold := 0.6\<rparr>\<rparr>;
          hm = health_metrics s1
      in if severity > 6.0
           then Inr (''Decision system reset with increased exploration'',
                     s1\<lparr>agent := (agent s1)\<lparr>exploration_rate :=
                                    min 0.3 (exploration_rate (agent s1) + severity / 20)\<rparr>,
                        health_metrics :=
                          hm\<lparr>decision_quality := decision_quality hm + min 30 (severity * 3)\<rparr>\<rparr>)
           else Inr (''Decision thresholds reset'',
                     s1\<lparr>health_metrics :=
                          hm\<lparr>decision_quality :=
                               decision_quality hm + min 15 (severity * 1.5)\<rparr>\<rparr>))"

definition heal_communication_failure :: strategy where
  "heal_communication_failure s severity =
     (let hm = health_metrics s in
      Inr (''Communication protocols reset and reinitialized'',
           s\<lparr>health_metrics :=
               hm\<lparr>communication_reliability :=
                    communication_reliability hm + min 25 (severity * 2.5)\<rparr>\<rparr>))"

text \<open>The dict \<open>recovery_strategies\<close>, in insertion order.\<close>

definition recovery_strategies :: "(string \<times> strategy) list" where
  "recovery_strategies =
     [(''memory_corruption'', heal_memory_corruption),
      (''emotional_instability'', heal_emotional_instability),
      (''resource_depletion'', heal_resource_depletion),
      (''decision_paralysis'', heal_decision_paralysis),
      (''communication_failure'', heal_communication_failure)]"

record action =
  a_issue :: string
  a_strategy :: string
  a_result :: string

record heal_result =
  status :: string
  actions_taken :: "action list"

text \<open>The core error type of an issue type: the issue type without its prefix.\<close>

definition core_error_type :: "string \<Rightarrow> string" where
  "core_error_type issue_type =
     (if startswith issue_type ''critical_'' then drop 9 issue_type
      else if startswith issue_type ''recurring_'' then drop 10 issue_type
      else issue_type)"

text \<open>The first strategy whose key occurs in the error type (the loop with its \<open>break\<close>).\<close>

definition find_strategy :: "string \<Rightarrow> (string \<times> strategy) option" where
  "find_strategy error_type =
     find (\<lambda>(strategy_key, strategy_func). str_in strategy_key error_type)
       recovery_strategies"

text \<open>One round of the loop over the top three issues; an exception ends the loop.\<close>

definition heal_issue ::
  "issue \<Rightarrow> py_error + (action list \<times> self_healing)
     \<Rightarrow> py_error + (action list \<times> self_healing)" where
  "heal_issue iss r =
     (case r of
        Inl err \<Rightarrow> Inl err
      | Inr (actions, s) \<Rightarrow>
          (case find_strategy (core_error_type (i_type iss)) of
             None \<Rightarrow> Inr (actions, s)
           | Some (strategy_key, strategy_func) \<Rightarrow>
               (case strategy_func s (i_severity iss) of
                  Inl err \<Rightarrow> Inl err
                | Inr (result, s') \<Rightarrow>
                    Inr (actions @ [\<lparr>a_issue = i_type iss, a_strategy = strategy_key,
                                     a_result = result\<rparr>], s'))))"

text \<open>The marking pass over one log entry.\<close>

definition mark_healed :: "action list \<Rightarrow> error_record \<Rightarrow> error_record" where
  "mark_healed actions e =
     (if \<not> healed e \<and> list_ex (\<lambda>a. str_in (e_type e) (a_issue a)) actions
      then e\<lparr>healed := True\<rparr> else e)"

definition heal :: "self_healing \<Rightarrow> py_error + (heal_result \<times> self_healing)" where
  "heal s =
     (let issues = diagnose s in
      if issues = [] then Inr (\<lparr>status = ''healthy'', actions_taken = []\<rparr>, s)
      else
        (case fold heal_issue (take 3 issues) (Inr ([], s)) of
           Inl err \<Rightarrow> Inl err
         | Inr (actions, s') \<Rightarrow>
             Inr (\<lparr>status = (if actions \<noteq> [] then ''healing_performed''
                              else ''no_suitable_healing_strategy''),
                   actions_taken = actions\<rparr>,
                  s'\<lparr>error_log := map (mark_healed actions) (error_log s')\<rparr>)))"

text \<open>
  The unhealed entries of an error type in a log: those
  \<open>diagnose\<close> counts under that type.
\<close>

definition unhealed_of :: "string \<Rightarrow> error_record list \<Rightarrow> error_record list" where
  "unhealed_of t entries = filter (\<lambda>e. \<not> healed e \<and> e_type e = t) entries"

text \<open>The state of scenario C7: three memory corruption errors of severity 20.\<close>

definition three_memory_errors :: self_healing where
  "three_memory_errors =
     log_error
       (log_error
          (log_error (SelfHealingSystem ARIELAgent) ''memory_corruption'' 20 [] 1)
          ''memory_corruption'' 20 [] 2)
       ''memory_corruption'' 20 [] 3"

subsection \<open>Sequences of operations on the health engine\<close>

text \<open>
  An operation on the engine is a call of \<open>log_error\<close> or of \<open>heal\<close>; \<open>run_ops\<close>
  performs a sequence of them and stops at the first exception.
\<close>

datatype op = LogError string real "(string \<times> string) list" real | Heal

fun run_op :: "self_healing \<Rightarrow> op \<Rightarrow> py_error + self_healing" where
  "run_op s (LogError error_type severity details now) =
     Inr (log_error s error_type severity details now)"
| "run_op s Heal = (case heal s of Inl err \<Rightarrow> Inl err | Inr (r, s') \<Rightarrow> Inr s')"

fun run_ops :: "self_healing \<Rightarrow> op list \<Rightarrow> py_error + self_healing" where
  "run_ops s [] = Inr s"
| "run_ops s (x # xs) = (case run_op s x of Inl err \<Rightarrow> Inl err | Inr s' \<Rightarrow> run_ops s' xs)"

fun nonneg_severity :: "op \<Rightarrow> bool" where
  "nonneg_severity (LogError error_type severity details now) = (0 \<le> severity)"
| "nonneg_severity Heal = True"

fun is_log_error :: "op \<Rightarrow> bool" where
  "is_log_error (LogError error_type severity details now) = True"
| "is_log_error Heal = False"

text \<open>Bounds on the five health metrics, and the order between two readings of them.\<close>

definition metrics_ge :: "real \<Rightarrow> metrics \<Rightarrow> bool" where
  "metrics_ge b hm \<longleftrightarrow>
     b \<le> memory_integrity hm \<and> b \<le> emotional_balance hm \<and> b \<le> resource_efficiency hm
     \<and> b \<le> decision_quality hm \<and> b \<le> communication_reliability hm"

definition metrics_le :: "metrics \<Rightarrow> real \<Rightarrow> bool" where
  "metrics_le hm b \<longleftrightarrow>
     memory_integrity hm \<le> b \<and> emotional_balance hm \<le> b \<and> resource_efficiency hm \<le> b
     \<and> decision_quality hm \<le> b \<and> communication_reliability hm \<le> b"

definition metrics_mono :: "metrics \<Rightarrow> metrics \<Rightarrow> bool" where
  "metrics_mono hm hm' \<longleftrightarrow>
     memory_integrity hm \<le> memory_integrity hm'
     \<and> emotional_balance hm \<le> emotional_balance hm'
     \<and> resource_efficiency hm \<le> resource_efficiency hm'
     \<and> decision_quality hm \<le> decision_quality hm'
     \<and> communication_reliability hm \<le> communication_reliability hm'"

text \<open>
  The invariant of the engine under operations with non-negative severities: no metric
  and no logged severity is negative.
\<close>

definition healthy_inv :: "self_healing \<Rightarrow> bool" where
  "healthy_inv s \<longleftrightarrow> metrics_ge 0 (health_metrics s) \<and> list_all (\<lambda>e. 0 \<le> e_severity e) (error_log s)"

text \<open>
  What every recovery strategy does when the severity is not negative: it returns an
  outcome, leaves the log alone and lowers no metric.
\<close>

definition strategy_ok :: "strategy \<Rightarrow> bool" where
  "strategy_ok f \<longleftrightarrow>
     (\<forall>s sev. 0 \<le> sev \<longrightarrow>
        (\<exists>r s'. f s sev = Inr (r, s') \<and> error_log s' = error_log s
                 \<and> metrics_mono (health_metrics s) (health_metrics s')))"

text \<open>
  Three errors of a type the table of \<open>log_error\<close> does not know, whose name contains
  the strategy key \<open>memory_corruption\<close>, followed by \<open>heal\<close>.
\<close>

definition quantum_errors_then_heal :: "op list" where
  "quantum_errors_then_heal =
     [LogError ''quantum_memory_corruption'' 5 [] 1,
      LogError ''quantum_memory_corruption'' 5 [] 2,
      LogError ''quantum_memory_corruption'' 5 [] 3,
      Heal]"

text \<open>A single memory leak of severity 60: one critical metric, nothing recurring.\<close>

definition one_memory_leak :: self_healing where
  "one_memory_leak = log_error (SelfHealingSystem ARIELAgent) ''memory_leak'' 60 [] 1"

text \<open>
  The effect of the operations on the metrics, read off \<open>log_error\<close> and the five
  recovery strategies: the metric an error type lowers, the metric the strategy of a key
  raises and by how much, and the change of one metric by its name.
\<close>

definition addressed_metric :: "string \<Rightarrow> string option" where
  "addressed_metric error_type =
     (if error_type \<in> set [''memory_corruption'', ''memory_leak'']
        then Some ''memory_integrity''
      else if error_type \<in> set [''emotional_instability'', ''emotional_deadlock'']
        then Some ''emotional_balance''
      else if error_type \<in> set [''resource_depletion'', ''resource_contention'']
        then Some ''resource_efficiency''
      else if error_type \<in> set [''decision_paralysis'', ''decision_oscillation'']
        then Some ''decision_quality''
      else if error_type \<in> set [''communication_failure'', ''protocol_violation'']
        then Some ''communication_reliability''
      else None)"

definition strategy_metric :: "string \<Rightarrow> string" where
  "strategy_metric strategy_key =
     (if strategy_key = ''memory_corruption'' then ''memory_integrity''
      else if strategy_key = ''emotional_instability'' then ''emotional_balance''
      else if strategy_key = ''resource_depletion'' then ''resource_efficiency''
      else if strategy_key = ''decision_paralysis'' then ''decision_quality''
      else if strategy_key = ''communication_failure'' then ''communication_reliability''
      else [])"

definition strategy_gain :: "string \<Rightarrow> real \<Rightarrow> real" where
  "strategy_gain strategy_key severity =
     (if strategy_key = ''memory_corruption''
        then (if severity > 7.0 then min 30 (severity * 3) else min 15 (severity * 2))
      else if strategy_key = ''emotional_instability'' then min 25 (severity * 2.5)
      else if strategy_key = ''resource_depletion''
        then (if severity > 5.0 then min 20 (severity * 2) else min 10 severity)
      else if strategy_key = ''decision_paralysis''
        then (if severity > 6.0 then min 30 (severity * 3) else min 15 (severity * 1.5))
      else if strategy_key = ''communication_failure'' then min 25 (severity * 2.5)
      else 0)"

definition adjust_metric :: "string \<Rightarrow> (real \<Rightarrow> real) \<Rightarrow> metrics \<Rightarrow> metrics" where
  "adjust_metric metric f hm =
     (if metric = ''memory_integrity'' then hm\<lparr>memory_integrity := f (memory_integrity hm)\<rparr>
      else if metric = ''emotional_balance''
        then hm\<lparr>emotional_balance := f (emotional_balance hm)\<rparr>
      else if metric = ''resource_efficiency''
        then hm\<lparr>resource_efficiency := f (resource_efficiency hm)\<rparr>
      else if metric = ''decision_quality''
        then hm\<lparr>decision_quality := f (decision_quality hm)\<rparr>
      else if metric = ''communication_reliability''
        then hm\<lparr>communication_reliability := f (communication_reliability hm)\<rparr>
      else hm)"

text \<open>
  What a logged error of a type does to the metrics, and what one round of the loop of
  \<open>heal\<close> does to them for an issue: nothing if no strategy key occurs in the core error
  type, else the gain of the first such strategy added to its metric, with no upper
  clamp.
\<close>

definition error_effect :: "string \<Rightarrow> real \<Rightarrow> metrics \<Rightarrow> metrics" where
  "error_effect error_type severity hm =
     (case addressed_metric error_type of
        None \<Rightarrow> hm
      | Some metric \<Rightarrow> adjust_metric metric (\<lambda>v. max 0 (v - severity)) hm)"

definition issue_effect :: "issue \<Rightarrow> metrics \<Rightarrow> metrics" where
  "issue_effect iss hm =
     (case find_strategy (core_error_type (i_type iss)) of
        None \<Rightarrow> hm
      | Some (strategy_key, strategy_func) \<Rightarrow>
          adjust_metric (strategy_metric strategy_key)
            (\<lambda>v. v + strategy_gain strategy_key (i_severity iss)) hm)"

text \<open>
  The three errors of scenario C7 followed by \<open>heal\<close>.
\<close>

definition recurring_errors_then_heal :: "op list" where
  "recurring_errors_then_heal =
     [LogError ''memory_corruption'' 20 [] 1,
      LogError ''memory_corruption'' 20 [] 2,
      LogError ''memory_corruption'' 20 [] 3,
      Heal]"

subsection \<open>WarpSystem\<close>

record team =
  t_name :: string
  is_active :: bool
  efficiency :: real

definition Team :: "string \<Rightarrow> team" where
  "Team name = \<lparr>t_name = name, is_active = False, efficiency = 0.5\<rparr>"

text \<open>
  The input of \<open>process_with_warp\<close>, and the output of a team: a sequence of floats,
  which is a tuple (hashable) or a list or numpy array (not hashable).
\<close>

datatype task = PyTuple "real list" | PyList "real list"

fun elements :: "task \<Rightarrow> real list" where
  "elements (PyTuple xs) = xs"
| "elements (PyList xs) = xs"

fun hashable :: "task \<Rightarrow> bool" where
  "hashable (PyTuple xs) = True"
| "hashable (PyList xs) = False"

text \<open>\<open>Team.process\<close>, a placeholder in the source: it returns its input.\<close>

definition team_process :: "team \<Rightarrow> task \<Rightarrow> task" where
  "team_process t input_data = input_data"

text \<open>
  The value of \<open>self.phase\<close>: either an \<open>int\<close> (the class attributes
  \<open>WarpPhase.INITIALIZATION\<close>, ... are plain integers) or an instance of \<open>WarpPhase\<close>
  built by its constructor, which has the attribute \<open>value\<close>.
\<close>

datatype phase_value = PInt int | PWarp int

text \<open>\<open>WarpPhase(value)\<close>: the lookup of the name in a dict of the keys 1 to 5.\<close>

definition WarpPhase :: "int \<Rightarrow> py_error + phase_value" where
  "WarpPhase v = (if 1 \<le> v \<and> v \<le> 5 then Inr (PWarp v) else Inl KeyError)"

text \<open>\<open>self.phase.value\<close>: an \<open>int\<close> has no attribute \<open>value\<close>.\<close>

definition phase_dot_value :: "phase_value \<Rightarrow> py_error + int" where
  "phase_dot_value p = (case p of PInt n \<Rightarrow> Inl AttributeError | PWarp v \<Rightarrow> Inr v)"

text \<open>
  \<open>self.phase == WarpPhase.X\<close> with \<open>WarpPhase.X\<close> the integer \<open>k\<close>: \<open>WarpPhase\<close>
  defines no \<open>__eq__\<close>, so an instance is never equal to an integer.
\<close>

definition phase_eq :: "phase_value \<Rightarrow> int \<Rightarrow> bool" where
  "phase_eq p k = (case p of PInt n \<Rightarrow> n = k | PWarp v \<Rightarrow> False)"

text \<open>\<open>TaskDiversityTracker\<close>; a task is the input of \<open>process_with_warp\<close>.\<close>

record task_diversity =
  task_history :: "task list"
  window_size :: nat
  diversity_threshold :: real

definition TaskDiversityTracker :: task_diversity where
  "TaskDiversityTracker = \<lparr>task_history = [], window_size = 100, diversity_threshold = 0.6\<rparr>"

definition tracker_update :: "task_diversity \<Rightarrow> task \<Rightarrow> task_diversity" where
  "tracker_update td task =
     (let h = task_history td @ [task]
      in td\<lparr>task_history := (if length h > window_size td then tl h else h)\<rparr>)"

text \<open>
  \<open>is_low\<close>. Once the history holds \<open>window_size\<close> tasks, \<open>set(self.task_history)\<close>
  raises \<open>TypeError\<close> if a task is not hashable, and the division raises
  \<open>ZeroDivisionError\<close> if \<open>window_size\<close> is 0.
\<close>

definition is_low :: "task_diversity \<Rightarrow> py_error + bool" where
  "is_low td =
     (if length (task_history td) < window_size td then Inr False
      else if list_ex (\<lambda>t. \<not> hashable t) (task_history td) then Inl TypeError
      else if window_size td = 0 then Inl ZeroDivisionError
      else Inr (real (length (remdups (task_history td))) / real (window_size td)
                  < diversity_threshold td))"

record resource_monitor =
  cpu_threshold :: real
  memory_threshold :: real

text \<open>
  The state of a \<open>WarpSystem\<close>. The fields \<open>ariel\<close>, \<open>team_origin\<close> and \<open>team_warp\<close>
  are never read and are left out.
\<close>

record warp_system =
  phase :: phase_value
  all_teams :: "(string \<times> team) list"
  current_phase_start_time :: real
  is_light_speed :: bool
  resource_monitor :: resource_monitor
  complexity_score :: int
  max_complexity :: int
  task_diversity :: task_diversity
  error_rate :: real
  max_error_rate :: real
  stability_check_interval :: real

definition WarpSystem :: warp_system where
  "WarpSystem =
     \<lparr>phase = PInt 1,
      all_teams =
        [(''team1'', Team ''Initialization''),
         (''team2'', Team ''Capturing Cohesion''),
         (''team3'', Team ''Adversarial Cortex''),
         (''team4'', Team ''Secondary Hyper-Compression''),
         (''team5'', Team ''Warp Drive'')],
      current_phase_start_time = 0,
      is_light_speed = False,
      resource_monitor = \<lparr>cpu_threshold = 90, memory_threshold = 90\<rparr>,
      complexity_score = 0,
      max_complexity = 100,
      task_diversity = TaskDiversityTracker,
      error_rate = 0,
      max_error_rate = 0.1,
      stability_check_interval = 10\<rparr>"

definition get_active_teams :: "warp_system \<Rightarrow> team list" where
  "get_active_teams ws = filter is_active (map snd (all_teams ws))"

text \<open>The length of the rows of a matrix given as a list of rows.\<close>

definition row_length :: "real list list \<Rightarrow> nat" where
  "row_length results = (case results of [] \<Rightarrow> 0 | r # rs \<Rightarrow> length r)"

text \<open>
  \<open>numpy.average(results, axis=0, weights=weights)\<close> for a list of equally long rows
  (the outputs of the teams, tuples of floats) and one weight per row: the weighted sum
  of the rows divided by the sum of the weights. Rows of different lengths, or a number
  of weights other than the number of rows, raise \<open>ValueError\<close>; weights that sum to
  zero (also: no rows and no weights) raise \<open>ZeroDivisionError\<close>.
\<close>

definition np_average :: "real list list \<Rightarrow> real list \<Rightarrow> py_error + real list" where
  "np_average results weights =
     (if list_ex (\<lambda>r. length r \<noteq> row_length results) results then Inl ValueError
      else if length weights \<noteq> length results then Inl ValueError
      else if sum_list weights = 0 then Inl ZeroDivisionError
      else Inr (map (\<lambda>j. sum_list (map2 (\<lambda>r w. r ! j * w) results weights)
                          / sum_list weights)
                  [0..<row_length results]))"

text \<open>
  \<open>numpy.mean(results, axis=0)\<close>. For no rows numpy returns \<open>nan\<close> with a warning; the
  reals have no such value, and the model returns the marker \<open>NotANumber\<close>.
\<close>

definition np_mean :: "real list list \<Rightarrow> py_error + real list" where
  "np_mean results =
     (if list_ex (\<lambda>r. length r \<noteq> row_length results) results then Inl ValueError
      else if results = [] then Inl NotANumber
      else Inr (map (\<lambda>j. sum_list (map (\<lambda>r. r ! j) results) / real (length results))
                  [0..<row_length results]))"

definition combine_light_speed_results :: "real list list \<Rightarrow> py_error + real list" where
  "combine_light_speed_results results = np_mean results"

definition combine_phase_results :: "real list list \<Rightarrow> py_error + real list" where
  "combine_phase_results results =
     (let weights = take (length results) [0.1, 0.2, 0.3, 0.4]
      in np_average results weights)"

text \<open>
  \<open>process_with_warp\<close>. The processing function of the teams is a parameter
  (\<open>team.process\<close> is a method call; the source's own is \<^const>\<open>team_process\<close>). The
  outputs are combined, then \<open>is_low\<close> is called: it may raise, and its answer only
  decides whether a warning is logged. The result is the combined output with the system
  as the call leaves it.
\<close>

definition process_with_warp ::
  "(team \<Rightarrow> task \<Rightarrow> task) \<Rightarrow> warp_system \<Rightarrow> task
     \<Rightarrow> py_error + (real list \<times> warp_system)" where
  "process_with_warp proc ws input_data =
     (let active_teams = get_active_teams ws;
          results = map (\<lambda>t. elements (proc t input_data)) active_teams;
          ws1 = ws\<lparr>task_diversity := tracker_update (task_diversity ws) input_data\<rparr>
      in case (if is_light_speed ws1 then combine_light_speed_results results
               else combine_phase_results results) of
           Inl err \<Rightarrow> Inl err
         | Inr final_result \<Rightarrow>
             (case is_low (task_diversity ws1) of
                Inl err \<Rightarrow> Inl err
              | Inr low \<Rightarrow> Inr (final_result, ws1)))"

text \<open>A system outside light speed whose first two teams are active.\<close>

definition two_active_teams :: warp_system where
  "two_active_teams =
     WarpSystem\<lparr>all_teams :=
       [(''team1'', (Team ''Initialization'')\<lparr>is_active := True\<rparr>),
        (''team2'', (Team ''Capturing Cohesion'')\<lparr>is_active := True\<rparr>),
        (''team3'', Team ''Adversarial Cortex''),
        (''team4'', Team ''Secondary Hyper-Compression''),
        (''team5'', Team ''Warp Drive'')]\<rparr>"

text \<open>
  A processing function that depends on the team, as a subclass of \<open>Team\<close> overriding
  \<open>process\<close> gives: the first team returns its input, every other team the double of it.
\<close>

definition doubling_process :: "team \<Rightarrow> task \<Rightarrow> task" where
  "doubling_process t input_data =
     (if t_name t = ''Initialization'' then input_data
      else PyTuple (map (\<lambda>x. 2 * x) (elements input_data)))"

subsection \<open>The orchestrator loop\<close>

text \<open>
  What the loop reads from outside: the value of the \<open>k\<close>-th call of \<open>time.time()\<close>
  and the \<open>k\<close>-th reading of \<open>psutil\<close> by the resource monitor. The \<open>world\<close> counts
  the calls made so far. \<open>time.sleep\<close> and logging change no state of the system.
\<close>

record env =
  clock :: "nat \<Rightarrow> real"
  cpu_percent :: "nat \<Rightarrow> real"
  memory_percent :: "nat \<Rightarrow> real"

record world =
  time_calls :: nat
  samples :: nat

definition time_now :: "env \<Rightarrow> world \<Rightarrow> real \<times> world" where
  "time_now ev w = (clock ev (time_calls w), w\<lparr>time_calls := Suc (time_calls w)\<rparr>)"

definition is_overloaded :: "env \<Rightarrow> resource_monitor \<Rightarrow> world \<Rightarrow> bool \<times> world" where
  "is_overloaded ev rm w =
     (cpu_percent ev (samples w) > cpu_threshold rm
        \<or> memory_percent ev (samples w) > memory_threshold rm,
      w\<lparr>samples := Suc (samples w)\<rparr>)"

text \<open>
  \<open>self.all_teams[name]\<close> and the assignment to \<open>is_active\<close> of the team found.
\<close>

definition get_team :: "warp_system \<Rightarrow> string \<Rightarrow> py_error + team" where
  "get_team ws name =
     (case map_of (all_teams ws) name of None \<Rightarrow> Inl KeyError | Some t \<Rightarrow> Inr t)"

definition set_team_active :: "warp_system \<Rightarrow> string \<Rightarrow> bool \<Rightarrow> warp_system" where
  "set_team_active ws name b =
     ws\<lparr>all_teams :=
          map (\<lambda>(k, t). if k = name then (k, t\<lparr>is_active := b\<rparr>) else (k, t)) (all_teams ws)\<rparr>"

text \<open>
  The decimal digits of an integer, for the key \<open>f"team{self.phase.value}"\<close>.
\<close>

fun str_nat :: "nat \<Rightarrow> string" where
  "str_nat n =
     (if n < 10 then [''0123456789'' ! n]
      else str_nat (n div 10) @ [''0123456789'' ! (n mod 10)])"

declare str_nat.simps [simp del]

definition str_int :: "int \<Rightarrow> string" where
  "str_int i = (if i < 0 then ''-'' @ str_nat (nat (- i)) else str_nat (nat i))"

definition check_stability :: "warp_system \<Rightarrow> bool" where
  "check_stability ws = (if error_rate ws > max_error_rate ws then False else True)"

type_synonym loop_state = "warp_system \<times> world"

text \<open>
  \<open>_check_team_efficiency\<close>: when the team is below the threshold the phase timer is
  reset. Either branch reads the clock once.
\<close>

definition check_team_efficiency ::
  "env \<Rightarrow> loop_state \<Rightarrow> string \<Rightarrow> real \<Rightarrow> real \<Rightarrow> py_error + (bool \<times> loop_state)" where
  "check_team_efficiency ev st team_name threshold duration =
     (case st of (ws, w) \<Rightarrow>
        (case get_team ws team_name of
           Inl err \<Rightarrow> Inl err
         | Inr tm \<Rightarrow>
             (case time_now ev w of (t, w1) \<Rightarrow>
                if efficiency tm \<ge> threshold
                  then Inr (t - current_phase_start_time ws \<ge> duration, (ws, w1))
                  else Inr (False, (ws\<lparr>current_phase_start_time := t\<rparr>, w1)))))"

text \<open>
  \<open>_advance_phase\<close>: \<open>self.phase.value\<close> raises unless the phase is a \<open>WarpPhase\<close>
  instance.
\<close>

definition advance_phase :: "env \<Rightarrow> loop_state \<Rightarrow> py_error + loop_state" where
  "advance_phase ev st =
     (case st of (ws, w) \<Rightarrow>
        (case phase_dot_value (phase ws) of
           Inl err \<Rightarrow> Inl err
         | Inr v \<Rightarrow>
             (case WarpPhase (v + 1) of
                Inl err \<Rightarrow> Inl err
              | Inr p \<Rightarrow>
                  (let ws1 = ws\<lparr>phase := p\<rparr>;
                       key = ''team'' @ str_int (v + 1)
                   in case get_team ws1 key of
                        Inl err \<Rightarrow> Inl err
                      | Inr next_team \<Rightarrow>
                          (case time_now ev w of (t, w1) \<Rightarrow>
                             Inr ((set_team_active ws1 key True)
                                    \<lparr>current_phase_start_time := t,
                                     complexity_score := complexity_score ws1 + 10\<rparr>,
                                  w1))))))"

text \<open>
  \<open>_revert_phase\<close>; the key of the team to deactivate is built from the new phase's
  value plus one.
\<close>

definition revert_phase :: "env \<Rightarrow> loop_state \<Rightarrow> py_error + loop_state" where
  "revert_phase ev st =
     (case st of (ws, w) \<Rightarrow>
        (case phase_dot_value (phase ws) of
           Inl err \<Rightarrow> Inl err
         | Inr v \<Rightarrow>
             if v > 1 then
               (case WarpPhase (v - 1) of
                  Inl err \<Rightarrow> Inl err
                | Inr p \<Rightarrow>
                    (let ws1 = ws\<lparr>phase := p\<rparr>;
                         key = ''team'' @ str_int (v - 1 + 1)
                     in case get_team ws1 key of
                          Inl err \<Rightarrow> Inl err
                        | Inr tm \<Rightarrow>
                            (case time_now ev w of (t, w1) \<Rightarrow>
                               Inr ((set_team_active ws1 key False)
                                      \<lparr>current_phase_start_time := t,
                                       complexity_score := complexity_score ws1 - 10\<rparr>,
                                    w1))))
             else Inr (ws, w)))"

definition initiate_warp_drive :: "warp_system \<Rightarrow> warp_system" where
  "initiate_warp_drive ws =
     ws\<lparr>is_light_speed := True,
        all_teams := map (\<lambda>(k, t). (k, t\<lparr>is_active := True\<rparr>)) (all_teams ws)\<rparr>"

datatype tick_result = Continue loop_state | Break loop_state | Raise py_error

text \<open>
  One condition of the \<open>if\<close>/\<open>elif\<close> chain, \<open>self.phase == k and
  self._check_team_efficiency(team, 0.8, 3)\<close>: the check runs (and may reset the timer)
  only if the phase test holds.
\<close>

definition phase_condition :: "env \<Rightarrow> loop_state \<Rightarrow> int \<Rightarrow> string \<Rightarrow> py_error + (bool \<times> loop_state)" where
  "phase_condition ev st k team_name =
     (if phase_eq (phase (fst st)) k then check_team_efficiency ev st team_name 0.8 3
      else Inr (False, st))"

definition advance :: "env \<Rightarrow> loop_state \<Rightarrow> tick_result" where
  "advance ev st = (case advance_phase ev st of Inl err \<Rightarrow> Raise err | Inr st' \<Rightarrow> Continue st')"

text \<open>
  The \<open>if\<close>/\<open>elif\<close> chain of \<open>_process_phase\<close>: each condition is tried only when
  the ones before it were false; the last branches are the terminal action with its
  \<open>break\<close>, and the idle tick.
\<close>

definition transitions :: "env \<Rightarrow> loop_state \<Rightarrow> tick_result" where
  "transitions ev st =
     (case phase_condition ev st 1 ''team1'' of
        Inl err \<Rightarrow> Raise err
      | Inr (b1, st1) \<Rightarrow>
          if b1 then advance ev st1
          else
            (case phase_condition ev st1 2 ''team2'' of
               Inl err \<Rightarrow> Raise err
             | Inr (b2, st2) \<Rightarrow>
                 if b2 then advance ev st2
                 else
                   (case phase_condition ev st2 3 ''team3'' of
                      Inl err \<Rightarrow> Raise err
                    | Inr (b3, st3) \<Rightarrow>
                        if b3 then advance ev st3
                        else
                          (case phase_condition ev st3 4 ''team4'' of
                             Inl err \<Rightarrow> Raise err
                           | Inr (b4, st4) \<Rightarrow>
                               if b4 then advance ev st4
                               else if phase_eq (phase (fst st4)) 5
                                 then Break (initiate_warp_drive (fst st4), snd st4)
                               else Continue st4))))"

text \<open>
  One round of \<open>while True\<close>: throttle on overload, revert when the stability check is
  due and fails, else the transitions.
\<close>

definition tick :: "env \<Rightarrow> loop_state \<Rightarrow> tick_result" where
  "tick ev st =
     (case st of (ws, w) \<Rightarrow>
        (case is_overloaded ev (resource_monitor ws) w of (overloaded, w1) \<Rightarrow>
           if overloaded then Continue (ws, w1)
           else
             (case time_now ev w1 of (t, w2) \<Rightarrow>
                if t - current_phase_start_time ws > stability_check_interval ws
                     \<and> \<not> check_stability ws
                  then (case revert_phase ev (ws, w2) of
                          Inl err \<Rightarrow> Raise err
                        | Inr st' \<Rightarrow> Continue st')
                  else transitions ev (ws, w2))))"

text \<open>
  \<open>_process_phase\<close> may run forever, so the loop takes a bound on its rounds:
  \<open>Running\<close> is the loop still going when the bound is reached, \<open>Halted\<close> the
  \<open>break\<close> after the terminal action, \<open>Raised\<close> an exception leaving the loop.
\<close>

datatype outcome = Halted loop_state | Raised py_error | Running loop_state

fun process_phase :: "env \<Rightarrow> nat \<Rightarrow> loop_state \<Rightarrow> outcome" where
  "process_phase ev 0 st = Running st"
| "process_phase ev (Suc n) st =
     (case tick ev st of
        Continue st' \<Rightarrow> process_phase ev n st'
      | Break st' \<Rightarrow> Halted st'
      | Raise err \<Rightarrow> Raised err)"

definition start_warp_sequence :: "env \<Rightarrow> nat \<Rightarrow> loop_state \<Rightarrow> outcome" where
  "start_warp_sequence ev fuel st =
     (case st of (ws, w) \<Rightarrow>
        (let ws1 = ws\<lparr>phase := PInt 1\<rparr> in
         case get_team ws1 ''team1'' of
           Inl err \<Rightarrow> Raised err
         | Inr tm \<Rightarrow>
             (case time_now ev w of (t, w1) \<Rightarrow>
                process_phase ev fuel
                  ((set_team_active ws1 ''team1'' True)\<lparr>current_phase_start_time := t\<rparr>, w1))))"

text \<open>
  A system whose first team has been given the efficiency 0.9 (the attribute is public;
  the constructor sets it to 0.5), a clock advancing 4 seconds per reading and an idle
  machine.
\<close>

definition efficient_team1 :: warp_system where
  "efficient_team1 =
     WarpSystem\<lparr>all_teams :=
       [(''team1'', (Team ''Initialization'')\<lparr>efficiency := 0.9\<rparr>),
        (''team2'', Team ''Capturing Cohesion''),
        (''team3'', Team ''Adversarial Cortex''),
        (''team4'', Team ''Secondary Hyper-Compression''),
        (''team5'', Team ''Warp Drive'')]\<rparr>"

definition quiet_env :: env where
  "quiet_env = \<lparr>clock = (\<lambda>k. 4 * real k), cpu_percent = (\<lambda>k. 10), memory_percent = (\<lambda>k. 10)\<rparr>"

definition new_world :: world where
  "new_world = \<lparr>time_calls = 0, samples = 0\<rparr>"

text \<open>
  The number of a phase, the range of the phases, and the state the terminal action
  leaves: phase 5, light speed, every team active.
\<close>

definition phase_number :: "phase_value \<Rightarrow> int" where
  "phase_number p = (case p of PInt n \<Rightarrow> n | PWarp v \<Rightarrow> v)"

definition phase_in_range :: "phase_value \<Rightarrow> bool" where
  "phase_in_range p \<longleftrightarrow> 1 \<le> phase_number p \<and> phase_number p \<le> 5"




section \<open>Properties\<close>

subsection \<open>Emotional state\<close>

text \<open>
  C8. From the default state (all eight intensities 50),
  \<open>update_emotion("joy", 20, decay_factor=0.9)\<close> yields joy 70, each of the other seven
  intensities 45, and stability (70 + 45 - 45 - 45) / 2 = 12.5.
\<close>

theorem update_emotion_joy_scenario:
  "\<exists>es. update_emotion default_emotional_state ''joy'' 20 0.9 = Inr es
      \<and> joy es = 70 \<and> sadness es = 45 \<and> fear es = 45 \<and> anger es = 45 \<and> trust es = 45
      \<and> disgust es = 45 \<and> anticipation es = 45 \<and> surprise es = 45
      \<and> stability es = 12.5 \<and> stability es = (70 + 45 - 45 - 45) / 2"
  by (simp add: update_emotion_def default_emotional_state_def EmotionalState_def
      update_derived_metrics_def getattr_es_def setattr_es_def get_emotion_def
      decay_step_def emotion_names_def)

text \<open>
  C2 (the code at the failing input). \<open>stability\<close> is not one of the eight emotion
  names, yet it is an attribute of the object, so \<open>hasattr\<close> accepts it:
  \<open>update_emotion("stability", 5)\<close> raises nothing and decays all eight intensities
  from 50 to 45.
\<close>

theorem update_emotion_stability_accepted:
  "''stability'' \<notin> set emotion_names
   \<and> (\<exists>es. update_emotion default_emotional_state ''stability'' 5 0.9 = Inr es
        \<and> es \<noteq> default_emotional_state
        \<and> joy es = 45 \<and> sadness es = 45 \<and> fear es = 45 \<and> anger es = 45
        \<and> trust es = 45 \<and> disgust es = 45 \<and> anticipation es = 45 \<and> surprise es = 45)"
  by (simp add: update_emotion_def default_emotional_state_def EmotionalState_def
      update_derived_metrics_def getattr_es_def setattr_es_def get_emotion_def
      decay_step_def emotion_names_def)

subsection \<open>Incentive system\<close>

lemma apply_reward_history:
  assumes "apply_reward isys rt m t0 es = Inr (v, isys', es')"
  shows "reward_history isys' = reward_history isys @ [(rt, v, t0)]"
  using assms
  by (auto simp: apply_reward_def Let_def split: option.splits attr.splits sum.splits)

text \<open>
  C9. A record appended by \<open>apply_reward\<close> at time \<open>t0\<close> is returned by
  \<open>get_recent_rewards\<close>, called at time \<open>now\<close> with window \<open>w\<close>, if and only if
  \<open>now - t0 \<le> w\<close>: the result is the result for the earlier history followed by the new
  record when it is inside the window, and by nothing otherwise. The history itself is
  the old one with the record appended, whatever the window.
\<close>

theorem get_recent_rewards_roundtrip:
  assumes "apply_reward isys rt m t0 es = Inr (v, isys', es')"
  shows "reward_history isys' = reward_history isys @ [(rt, v, t0)]
         \<and> get_recent_rewards isys' now w =
             get_recent_rewards isys now w @ (if now - t0 \<le> w then [(rt, v)] else [])"
  using apply_reward_history [OF assms] by (simp add: get_recent_rewards_def)

theorem get_recent_rewards_roundtrip_witness:
  "\<exists>isys' es'.
     apply_reward default_incentive_system ''curiosity'' 2 1000 default_emotional_state
       = Inr (10, isys', es')
     \<and> reward_history isys' = [(''curiosity'', 10, 1000)]
     \<and> get_recent_rewards isys' 1500 3600 = [(''curiosity'', 10)]
     \<and> get_recent_rewards isys' 5000 3600 = []"
proof -
  obtain isys' es' where
    a: "apply_reward default_incentive_system ''curiosity'' 2 1000 default_emotional_state
          = Inr (10, isys', es')"
    by (simp add: apply_reward_def getattr_is_def default_incentive_system_def
        update_two_def update_emotion_def getattr_es_def Let_def)
  have h: "reward_history default_incentive_system = []"
    by (simp add: default_incentive_system_def)
  have e: "get_recent_rewards default_incentive_system t w = []" for t w
    by (simp add: get_recent_rewards_def h)
  from get_recent_rewards_roundtrip [OF a, of 1500 3600]
       get_recent_rewards_roundtrip [OF a, of 5000 3600] a h e
  show ?thesis by auto
qed

subsection \<open>Health engine: diagnosis\<close>

text \<open>
  C7. From a fresh engine, three calls \<open>log_error("memory_corruption", 20, {})\<close> take
  \<open>memory_integrity\<close> from 100 to 80, 60 and 40, and \<open>diagnose\<close> then returns exactly
  two issues, in this order: \<open>recurring_memory_corruption\<close> with severity 20 and count 3,
  and \<open>critical_memory_integrity\<close> with severity (50 - 40) / 50 * 10 = 2.
\<close>

theorem recurring_error_scenario:
  fixes t1 t2 t3 :: real
  defines "s0 \<equiv> SelfHealingSystem ARIELAgent"
  defines "s1 \<equiv> log_error s0 ''memory_corruption'' 20 [] t1"
  defines "s2 \<equiv> log_error s1 ''memory_corruption'' 20 [] t2"
  defines "s3 \<equiv> log_error s2 ''memory_corruption'' 20 [] t3"
  shows "memory_integrity (health_metrics s0) = 100
       \<and> memory_integrity (health_metrics s1) = 80
       \<and> memory_integrity (health_metrics s2) = 60
       \<and> memory_integrity (health_metrics s3) = 40
       \<and> diagnose s3 =
           [\<lparr>i_type = ''recurring_memory_corruption'', i_severity = 20, i_count = Some 3,
             i_description = ''Recurring memory corruption detected''\<rparr>,
            \<lparr>i_type = ''critical_memory_integrity'', i_severity = (50 - 40) / 50 * 10,
             i_count = None,
             i_description = ''Critical memory integrity issue detected''\<rparr>]
       \<and> (50 - 40) / 50 * 10 = (2 :: real)"
  unfolding s0_def s1_def s2_def s3_def
  by (simp add: SelfHealingSystem_def log_error_def deque_append_def Let_def diagnose_def
      discovered_issues_def critical_issues_def critical_issue_def health_items_def
      error_counts_of_def count_error_def recurring_issues_def recurring_issue_def
      replace_underscore_def)

lemma bump_keys:
  "map fst (map (\<lambda>(t, c, ts). if t = x then (t, c + 1, ts + v) else (t, c, ts)) ec) = map fst ec"
  by (induction ec) auto

lemma bump_lookup:
  "map_of (map (\<lambda>(t, c, ts). if t = x then (t, c + 1, ts + v) else (t, c, ts)) ec) k =
     (if k = x then map_option (\<lambda>(c, ts). (c + (1::nat), ts + (v::real))) (map_of ec k)
      else map_of ec k)"
  by (induction ec) auto

lemma map_of_snoc:
  "map_of (ec @ [(x, v)]) k =
     (case map_of ec k of None \<Rightarrow> (if k = x then Some v else None) | Some w \<Rightarrow> Some w)"
  by (induction ec) auto

lemma count_error_keys:
  "map fst (count_error e ec) =
     (if \<not> healed e \<and> e_type e \<notin> set (map fst ec) then map fst ec @ [e_type e]
      else map fst ec)"
  using bump_keys by (auto simp: count_error_def Let_def)

lemma count_error_distinct:
  "distinct (map fst ec) \<Longrightarrow> distinct (map fst (count_error e ec))"
  by (simp add: count_error_keys)

lemma count_error_lookup:
  "map_of (count_error e ec) k =
     (if \<not> healed e \<and> e_type e = k
      then Some (case map_of ec k of None \<Rightarrow> (1, e_severity e)
                 | Some (c, ts) \<Rightarrow> (c + 1, ts + e_severity e))
      else map_of ec k)"
  by (simp add: count_error_def Let_def bump_lookup map_of_snoc
      map_of_eq_None_iff [symmetric] del: map_of_eq_None_iff map_of_append
      split: option.splits)

lemma fold_count_error_distinct:
  "distinct (map fst ec) \<Longrightarrow> distinct (map fst (fold count_error es ec))"
  by (induction es arbitrary: ec) (simp_all add: count_error_distinct)

lemma fold_count_error_lookup:
  "map_of (fold count_error es ec) k =
     (case map_of ec k of
        None \<Rightarrow> (if unhealed_of k es = [] then None
                 else Some (length (unhealed_of k es),
                            sum_list (map e_severity (unhealed_of k es))))
      | Some (c, ts) \<Rightarrow> Some (c + length (unhealed_of k es),
                             ts + sum_list (map e_severity (unhealed_of k es))))"
proof (induction es arbitrary: ec)
  case Nil
  then show ?case by (simp add: unhealed_of_def split: option.splits)
next
  case (Cons e es)
  show ?case
    by (simp add: Cons.IH count_error_lookup unhealed_of_def split: option.splits)
qed

lemma error_counts_of_lookup:
  "map_of (error_counts_of es) k =
     (if unhealed_of k es = [] then None
      else Some (length (unhealed_of k es), sum_list (map e_severity (unhealed_of k es))))"
  by (simp add: error_counts_of_def fold_count_error_lookup)

lemma error_counts_of_distinct: "distinct (map fst (error_counts_of es))"
  by (simp add: error_counts_of_def fold_count_error_distinct)

lemma error_counts_of_mem:
  "(k, c, ts) \<in> set (error_counts_of es) \<longleftrightarrow>
     unhealed_of k es \<noteq> [] \<and> c = length (unhealed_of k es)
       \<and> ts = sum_list (map e_severity (unhealed_of k es))"
  using map_of_eq_Some_iff [OF error_counts_of_distinct, of es k "(c, ts)"]
  by (auto simp: error_counts_of_lookup split: if_splits)

text \<open>
  C4. For every error type with at least three unhealed entries in the error log,
  \<open>diagnose\<close> returns a recurring issue for that type whose severity is the mean
  severity of those entries and whose count is their number.
\<close>

theorem diagnose_recurring:
  assumes "3 \<le> length (unhealed_of t (error_log s))"
  shows "\<exists>i. i \<in> set (diagnose s)
            \<and> i_type i = ''recurring_'' @ t
            \<and> i_severity i = sum_list (map e_severity (unhealed_of t (error_log s)))
                              / real (length (unhealed_of t (error_log s)))
            \<and> i_count i = Some (length (unhealed_of t (error_log s)))"
proof -
  let ?u = "unhealed_of t (error_log s)"
  from assms have "?u \<noteq> []" by auto
  then have "(t, length ?u, sum_list (map e_severity ?u)) \<in> set (error_counts_of (error_log s))"
    by (simp add: error_counts_of_mem)
  with assms have "recurring_issue (t, length ?u, sum_list (map e_severity ?u))
      \<in> set (recurring_issues (error_counts_of (error_log s)))"
    unfolding recurring_issues_def by force
  then have "recurring_issue (t, length ?u, sum_list (map e_severity ?u)) \<in> set (diagnose s)"
    by (simp add: diagnose_def discovered_issues_def)
  then show ?thesis
    by (intro exI [of _ "recurring_issue (t, length ?u, sum_list (map e_severity ?u))"])
       (simp add: recurring_issue_def)
qed

theorem diagnose_recurring_witness:
  "3 \<le> length (unhealed_of ''memory_corruption'' (error_log three_memory_errors))
   \<and> (\<exists>i. i \<in> set (diagnose three_memory_errors)
          \<and> i_type i = ''recurring_memory_corruption''
          \<and> i_severity i = 20 \<and> i_count i = Some 3)"
proof -
  have u: "map e_severity (unhealed_of ''memory_corruption'' (error_log three_memory_errors))
             = [20, 20, 20]"
    by (simp add: three_memory_errors_def SelfHealingSystem_def log_error_def
        deque_append_def Let_def unhealed_of_def)
  then have l: "length (unhealed_of ''memory_corruption'' (error_log three_memory_errors)) = 3"
    by (metis length_map length_Cons list.size(3) numeral_3_eq_3)
  then have h: "3 \<le> length (unhealed_of ''memory_corruption'' (error_log three_memory_errors))"
    by simp
  from diagnose_recurring [OF h] u l h show ?thesis by simp
qed

lemma critical_issues_empty:
  "critical_issues hm = [] \<longleftrightarrow>
     50 \<le> memory_integrity hm \<and> 50 \<le> emotional_balance hm \<and> 50 \<le> resource_efficiency hm
     \<and> 50 \<le> decision_quality hm \<and> 50 \<le> communication_reliability hm"
  by (auto simp: critical_issues_def health_items_def not_less)

lemma recurring_issues_empty:
  "recurring_issues (error_counts_of es) = [] \<longleftrightarrow> (\<forall>t. length (unhealed_of t es) < 3)"
proof
  assume a: "recurring_issues (error_counts_of es) = []"
  show "\<forall>t. length (unhealed_of t es) < 3"
  proof (rule allI, rule ccontr)
    fix t assume "\<not> length (unhealed_of t es) < 3"
    then have 3: "3 \<le> length (unhealed_of t es)" by simp
    then have "unhealed_of t es \<noteq> []" by auto
    then have "(t, length (unhealed_of t es), sum_list (map e_severity (unhealed_of t es)))
        \<in> set (error_counts_of es)"
      by (simp add: error_counts_of_mem)
    with 3 a show False
      by (auto simp: recurring_issues_def filter_empty_conv)
  qed
next
  assume "\<forall>t. length (unhealed_of t es) < 3"
  then have "\<not> 3 \<le> length (unhealed_of t es)" for t
    by (simp add: not_le)
  then show "recurring_issues (error_counts_of es) = []"
    by (auto simp: recurring_issues_def filter_empty_conv error_counts_of_mem)
qed

text \<open>
  C6. \<open>diagnose\<close> returns its issues sorted by severity in descending order, issues of
  equal severity in the order of their discovery, and the list is empty if and only if
  every health metric is at least 50 and no error type has three or more unhealed log
  entries.
\<close>

theorem diagnose_sorted_and_empty:
  "sorted (rev (map i_severity (diagnose s)))
   \<and> (\<forall>k. filter (\<lambda>i. i_severity i = k) (diagnose s)
          = filter (\<lambda>i. i_severity i = k) (discovered_issues s))
   \<and> (diagnose s = [] \<longleftrightarrow>
        (50 \<le> memory_integrity (health_metrics s)
         \<and> 50 \<le> emotional_balance (health_metrics s)
         \<and> 50 \<le> resource_efficiency (health_metrics s)
         \<and> 50 \<le> decision_quality (health_metrics s)
         \<and> 50 \<le> communication_reliability (health_metrics s))
        \<and> (\<forall>t. length (unhealed_of t (error_log s)) < 3))"
proof (intro conjI)
  have "sorted (map (\<lambda>i. - i_severity i) (diagnose s))"
    unfolding diagnose_def by (rule sorted_sort_key)
  then show "sorted (rev (map i_severity (diagnose s)))"
    by (simp add: sorted_wrt_rev sorted_map rev_map)
  show "\<forall>k. filter (\<lambda>i. i_severity i = k) (diagnose s)
          = filter (\<lambda>i. i_severity i = k) (discovered_issues s)"
  proof
    fix k
    have "(\<lambda>i. i_severity i = k) = (\<lambda>i. - i_severity i = - k)" by auto
    then show "filter (\<lambda>i. i_severity i = k) (diagnose s)
          = filter (\<lambda>i. i_severity i = k) (discovered_issues s)"
      unfolding diagnose_def using sort_key_stable [of "\<lambda>i. - i_severity i" "- k"] by simp
  qed
  have "diagnose s = [] \<longleftrightarrow> discovered_issues s = []"
    unfolding diagnose_def by (metis length_sort length_0_conv)
  then show "diagnose s = [] \<longleftrightarrow>
        (50 \<le> memory_integrity (health_metrics s)
         \<and> 50 \<le> emotional_balance (health_metrics s)
         \<and> 50 \<le> resource_efficiency (health_metrics s)
         \<and> 50 \<le> decision_quality (health_metrics s)
         \<and> 50 \<le> communication_reliability (health_metrics s))
        \<and> (\<forall>t. length (unhealed_of t (error_log s)) < 3)"
    by (simp add: discovered_issues_def critical_issues_empty recurring_issues_empty)
qed

subsection \<open>Health engine: recovery\<close>

lemma update_emotion_known:
  "e \<in> set emotion_names \<Longrightarrow> \<exists>es'. update_emotion es e v d = Inr es'"
  by (auto simp: update_emotion_def getattr_es_def emotion_names_def)

lemma fold_rebalance_ok:
  "fst ` set eds \<subseteq> set emotion_names \<Longrightarrow>
     \<exists>es'. fold (rebalance_step m sev) eds (Inr es) = Inr es'"
proof (induction eds arbitrary: es)
  case Nil
  then show ?case by simp
next
  case (Cons ed eds)
  obtain e d where ed: "ed = (e, d)" by (cases ed)
  with Cons.prems have "e \<in> set emotion_names" by simp
  then obtain es1 where "update_emotion es e ((m - get_emotion es e) * min 0.5 (sev / 10)) 0.9 = Inr es1"
    using update_emotion_known by blast
  then have "rebalance_step m sev ed (Inr es) = Inr es1"
    by (simp add: rebalance_step_def ed)
  moreover from Cons.prems have "fst ` set eds \<subseteq> set emotion_names" by simp
  ultimately show ?case using Cons.IH by simp
qed

lemma memory_ok: "strategy_ok heal_memory_corruption"
  by (simp add: strategy_ok_def heal_memory_corruption_def Let_def metrics_mono_def)

lemma resource_ok: "strategy_ok heal_resource_depletion"
  by (simp add: strategy_ok_def heal_resource_depletion_def Let_def metrics_mono_def)

lemma decision_ok: "strategy_ok heal_decision_paralysis"
  by (simp add: strategy_ok_def heal_decision_paralysis_def Let_def metrics_mono_def)

lemma communication_ok: "strategy_ok heal_communication_failure"
  by (simp add: strategy_ok_def heal_communication_failure_def Let_def metrics_mono_def)

lemma heal_emotional_instability_result:
  "\<exists>r es'. heal_emotional_instability s sev =
     Inr (r, s\<lparr>agent := (agent s)\<lparr>emotional_state := es'\<rparr>,
               health_metrics :=
                 (health_metrics s)\<lparr>emotional_balance :=
                    emotional_balance (health_metrics s) + min 25 (sev * 2.5)\<rparr>\<rparr>)"
proof -
  define es where "es = emotional_state (agent s)"
  define emotions where "emotions = map (\<lambda>e. (e, get_emotion es e)) emotion_names"
  define m where "m = median (map snd emotions)"
  define deviations where "deviations = map (\<lambda>(e, v). (e, \<bar>v - m\<bar>)) emotions"
  define extreme where "extreme = take 3 (sort_key (\<lambda>(e, d). - d) deviations)"
  have "set extreme \<subseteq> set deviations"
    unfolding extreme_def by (metis set_take_subset set_sort)
  moreover have "fst ` set deviations \<subseteq> set emotion_names"
    unfolding deviations_def emotions_def by auto
  ultimately have "fst ` set extreme \<subseteq> set emotion_names" by blast
  then obtain es' where f: "fold (rebalance_step m sev) extreme (Inr es) = Inr es'"
    using fold_rebalance_ok by blast
  have eq: "heal_emotional_instability s sev =
      (case fold (rebalance_step m sev) extreme (Inr es) of
         Inl err \<Rightarrow> Inl err
       | Inr es' \<Rightarrow>
           Inr (''Emotional rebalancing performed on '' @ repr_str_list (map fst extreme),
                s\<lparr>agent := (agent s)\<lparr>emotional_state := es'\<rparr>,
                  health_metrics :=
                    (health_metrics s)\<lparr>emotional_balance :=
                       emotional_balance (health_metrics s) + min 25 (sev * 2.5)\<rparr>\<rparr>))"
    unfolding heal_emotional_instability_def Let_def extreme_def deviations_def m_def
      emotions_def es_def ..
  show ?thesis unfolding eq f by auto
qed

lemma emotional_ok: "strategy_ok heal_emotional_instability"
  unfolding strategy_ok_def
proof (intro allI impI)
  fix s :: self_healing and sev :: real
  assume "0 \<le> sev"
  moreover obtain r es' where "heal_emotional_instability s sev =
     Inr (r, s\<lparr>agent := (agent s)\<lparr>emotional_state := es'\<rparr>,
               health_metrics :=
                 (health_metrics s)\<lparr>emotional_balance :=
                    emotional_balance (health_metrics s) + min 25 (sev * 2.5)\<rparr>\<rparr>)"
    using heal_emotional_instability_result by blast
  ultimately show "\<exists>r s'. heal_emotional_instability s sev = Inr (r, s')
      \<and> error_log s' = error_log s
      \<and> metrics_mono (health_metrics s) (health_metrics s')"
    by (simp add: metrics_mono_def)
qed

lemma find_strategy_ok:
  assumes "find_strategy t = Some (k, f)"
  shows "strategy_ok f"
proof -
  from assms have "(k, f) \<in> set recovery_strategies"
    unfolding find_strategy_def by (metis find_Some_iff nth_mem)
  then show ?thesis
    using memory_ok emotional_ok resource_ok decision_ok communication_ok
    by (auto simp: recovery_strategies_def)
qed

lemma metrics_mono_refl: "metrics_mono hm hm"
  by (simp add: metrics_mono_def)

lemma metrics_mono_trans: "metrics_mono a b \<Longrightarrow> metrics_mono b c \<Longrightarrow> metrics_mono a c"
  by (auto simp: metrics_mono_def)

lemma heal_issue_ok:
  assumes "0 \<le> i_severity iss"
  shows "\<exists>acts' s'. heal_issue iss (Inr (acts, s)) = Inr (acts', s')
           \<and> error_log s' = error_log s
           \<and> metrics_mono (health_metrics s) (health_metrics s')"
proof (cases "find_strategy (core_error_type (i_type iss))")
  case None
  then show ?thesis by (simp add: heal_issue_def metrics_mono_refl)
next
  case (Some kf)
  obtain k f where kf: "kf = (k, f)" by (cases kf)
  with Some have "strategy_ok f" using find_strategy_ok by blast
  with assms obtain r s' where "f s (i_severity iss) = Inr (r, s')"
      "error_log s' = error_log s" "metrics_mono (health_metrics s) (health_metrics s')"
    unfolding strategy_ok_def by blast
  with Some kf show ?thesis by (simp add: heal_issue_def)
qed

lemma fold_heal_issue_ok:
  "list_all (\<lambda>i. 0 \<le> i_severity i) iss \<Longrightarrow>
     \<exists>acts' s'. fold heal_issue iss (Inr (acts, s)) = Inr (acts', s')
           \<and> error_log s' = error_log s
           \<and> metrics_mono (health_metrics s) (health_metrics s')"
proof (induction iss arbitrary: acts s)
  case Nil
  then show ?case by (simp add: metrics_mono_refl)
next
  case (Cons i iss)
  then have "0 \<le> i_severity i" by simp
  from heal_issue_ok [OF this] obtain acts1 s1 where
    1: "heal_issue i (Inr (acts, s)) = Inr (acts1, s1)" "error_log s1 = error_log s"
       "metrics_mono (health_metrics s) (health_metrics s1)" by blast
  from Cons.prems have "list_all (\<lambda>i. 0 \<le> i_severity i) iss" by simp
  from Cons.IH [OF this, of acts1 s1] obtain acts' s' where
    2: "fold heal_issue iss (Inr (acts1, s1)) = Inr (acts', s')" "error_log s' = error_log s1"
       "metrics_mono (health_metrics s1) (health_metrics s')" by blast
  from 1 2 show ?case by (auto intro: metrics_mono_trans)
qed


lemma critical_issues_nonneg: "list_all (\<lambda>i. 0 \<le> i_severity i) (critical_issues hm)"
  by (simp add: critical_issues_def critical_issue_def health_items_def)

lemma recurring_issues_nonneg:
  assumes "list_all (\<lambda>e. 0 \<le> e_severity e) es"
  shows "list_all (\<lambda>i. 0 \<le> i_severity i) (recurring_issues (error_counts_of es))"
proof -
  have "0 \<le> i_severity (recurring_issue d)" if "d \<in> set (error_counts_of es)" for d
  proof -
    obtain t c ts where d: "d = (t, c, ts)" by (cases d)
    with that have ts: "ts = sum_list (map e_severity (unhealed_of t es))"
      by (simp add: error_counts_of_mem)
    have "set (unhealed_of t es) \<subseteq> set es" by (auto simp: unhealed_of_def)
    with assms have "\<And>x. x \<in> set (map e_severity (unhealed_of t es)) \<Longrightarrow> 0 \<le> x"
      by (auto simp: list_all_iff)
    then have "0 \<le> ts" unfolding ts by (rule sum_list_nonneg)
    then show ?thesis by (simp add: recurring_issue_def d)
  qed
  then show ?thesis by (auto simp: recurring_issues_def list_all_iff)
qed

lemma diagnose_nonneg:
  assumes "healthy_inv s"
  shows "list_all (\<lambda>i. 0 \<le> i_severity i) (diagnose s)"
proof -
  from assms have "list_all (\<lambda>i. 0 \<le> i_severity i) (discovered_issues s)"
    by (simp add: discovered_issues_def critical_issues_nonneg recurring_issues_nonneg
        healthy_inv_def)
  then show ?thesis by (simp add: diagnose_def list_all_iff)
qed

lemma mark_healed_severity: "e_severity (mark_healed acts e) = e_severity e"
  by (simp add: mark_healed_def)

lemma metrics_mono_ge: "metrics_mono a b \<Longrightarrow> metrics_ge x a \<Longrightarrow> metrics_ge x b"
  by (auto simp: metrics_mono_def metrics_ge_def)

lemma heal_ok:
  assumes "healthy_inv s"
  shows "\<exists>r s'. heal s = Inr (r, s') \<and> healthy_inv s'
           \<and> metrics_mono (health_metrics s) (health_metrics s')"
proof (cases "diagnose s = []")
  case True
  with assms show ?thesis by (simp add: heal_def metrics_mono_refl)
next
  case False
  from diagnose_nonneg [OF assms]
  have "list_all (\<lambda>i. 0 \<le> i_severity i) (take 3 (diagnose s))"
    by (auto simp: list_all_iff dest: in_set_takeD)
  from fold_heal_issue_ok [OF this, of "[]" s] obtain acts s1 where
    f: "fold heal_issue (take 3 (diagnose s)) (Inr ([], s)) = Inr (acts, s1)"
    and l: "error_log s1 = error_log s"
    and m: "metrics_mono (health_metrics s) (health_metrics s1)" by blast
  from assms l have "list_all (\<lambda>e. 0 \<le> e_severity e) (map (mark_healed acts) (error_log s1))"
    by (simp add: healthy_inv_def list_all_iff mark_healed_severity)
  moreover from assms m have "metrics_ge 0 (health_metrics s1)"
    by (auto simp: healthy_inv_def intro: metrics_mono_ge)
  ultimately have "healthy_inv (s1\<lparr>error_log := map (mark_healed acts) (error_log s1)\<rparr>)"
    by (simp add: healthy_inv_def)
  with False f m show ?thesis by (simp add: heal_def Let_def)
qed

lemma list_all_deque_append:
  "list_all P xs \<Longrightarrow> P x \<Longrightarrow> list_all P (deque_append n xs x)"
  by (cases xs) (simp_all add: deque_append_def)

lemma log_error_metrics:
  "health_metrics (log_error s t sev d now) =
     (let hm = health_metrics s in
      if t \<in> set [''memory_corruption'', ''memory_leak'']
        then hm\<lparr>memory_integrity := max 0 (memory_integrity hm - sev)\<rparr>
      else if t \<in> set [''emotional_instability'', ''emotional_deadlock'']
        then hm\<lparr>emotional_balance := max 0 (emotional_balance hm - sev)\<rparr>
      else if t \<in> set [''resource_depletion'', ''resource_contention'']
        then hm\<lparr>resource_efficiency := max 0 (resource_efficiency hm - sev)\<rparr>
      else if t \<in> set [''decision_paralysis'', ''decision_oscillation'']
        then hm\<lparr>decision_quality := max 0 (decision_quality hm - sev)\<rparr>
      else if t \<in> set [''communication_failure'', ''protocol_violation'']
        then hm\<lparr>communication_reliability := max 0 (communication_reliability hm - sev)\<rparr>
      else hm)"
  by (simp add: log_error_def Let_def)

lemma log_error_log:
  "error_log (log_error s t sev d now) =
     deque_append 100 (error_log s)
       \<lparr>e_type = t, e_severity = sev, e_timestamp = now, e_details = d, healed = False\<rparr>"
  by (simp add: log_error_def Let_def)

lemma log_error_inv:
  assumes "0 \<le> sev" "healthy_inv s"
  shows "healthy_inv (log_error s t sev d now)"
proof -
  from assms have "list_all (\<lambda>e. 0 \<le> e_severity e) (error_log (log_error s t sev d now))"
    unfolding log_error_log by (intro list_all_deque_append) (simp_all add: healthy_inv_def)
  moreover from assms have "metrics_ge 0 (health_metrics (log_error s t sev d now))"
    unfolding log_error_metrics by (simp add: healthy_inv_def metrics_ge_def Let_def)
  ultimately show ?thesis by (simp add: healthy_inv_def)
qed

lemma log_error_le:
  assumes "0 \<le> sev" "metrics_le (health_metrics s) b" "0 \<le> b"
  shows "metrics_le (health_metrics (log_error s t sev d now)) b"
  using assms unfolding log_error_metrics by (simp add: metrics_le_def Let_def)

lemma run_ops_inv:
  "list_all nonneg_severity ops \<Longrightarrow> healthy_inv s \<Longrightarrow>
     \<exists>s'. run_ops s ops = Inr s' \<and> healthy_inv s'"
proof (induction ops arbitrary: s)
  case Nil
  then show ?case by simp
next
  case (Cons x ops)
  have "\<exists>s1. run_op s x = Inr s1 \<and> healthy_inv s1"
  proof (cases x)
    case (LogError t sev d now)
    with Cons.prems show ?thesis by (simp add: log_error_inv)
  next
    case Heal
    with heal_ok [OF Cons.prems(2)] show ?thesis by auto
  qed
  then obtain s1 where "run_op s x = Inr s1" "healthy_inv s1" by blast
  moreover from Cons.prems have "list_all nonneg_severity ops" by simp
  ultimately show ?case using Cons.IH [of s1] by simp
qed

lemma run_ops_log_only:
  "list_all nonneg_severity ops \<Longrightarrow> list_all is_log_error ops \<Longrightarrow>
   metrics_le (health_metrics s) 100 \<Longrightarrow> run_ops s ops = Inr s' \<Longrightarrow>
   metrics_le (health_metrics s') 100"
proof (induction ops arbitrary: s)
  case Nil
  then show ?case by simp
next
  case (Cons x ops)
  from Cons.prems obtain t sev d now where x: "x = LogError t sev d now" and sev: "0 \<le> sev"
    by (cases x) auto
  from sev Cons.prems(3) have "metrics_le (health_metrics (log_error s t sev d now)) 100"
    by (simp add: log_error_le)
  moreover from Cons.prems x have "run_ops (log_error s t sev d now) ops = Inr s'" by simp
  moreover from Cons.prems have "list_all nonneg_severity ops" "list_all is_log_error ops"
    by simp_all
  ultimately show ?case using Cons.IH by blast
qed

lemma no_strategy_for_metric:
  "find_strategy ''memory_integrity'' = None"
  "find_strategy ''emotional_balance'' = None"
  "find_strategy ''resource_efficiency'' = None"
  "find_strategy ''decision_quality'' = None"
  "find_strategy ''communication_reliability'' = None"
  by (simp_all add: find_strategy_def recovery_strategies_def)

lemma core_error_type_critical: "core_error_type (''critical_'' @ m) = m"
  by (simp add: core_error_type_def)

lemma critical_no_strategy:
  assumes "i \<in> set (critical_issues hm)"
  shows "find_strategy (core_error_type (i_type i)) = None"
proof -
  from assms obtain m v where mv: "(m, v) \<in> set (health_items hm)" and i: "i = critical_issue (m, v)"
    by (auto simp: critical_issues_def)
  from i have it: "i_type i = ''critical_'' @ m"
    by (simp add: critical_issue_def)
  have t: "core_error_type (i_type i) = m"
    unfolding it by (rule core_error_type_critical)
  from mv have "m = ''memory_integrity'' \<or> m = ''emotional_balance''
      \<or> m = ''resource_efficiency'' \<or> m = ''decision_quality''
      \<or> m = ''communication_reliability''"
    by (auto simp: health_items_def)
  then show ?thesis unfolding t using no_strategy_for_metric by blast
qed
lemma fold_heal_issue_none:
  "list_all (\<lambda>i. find_strategy (core_error_type (i_type i)) = None) iss \<Longrightarrow>
     fold heal_issue iss (Inr (acts, s)) = Inr (acts, s)"
  by (induction iss) (simp_all add: heal_issue_def)

lemma mark_healed_none: "map (mark_healed []) es = es"
  by (induction es) (simp_all add: mark_healed_def)

text \<open>
  C10. No strategy key occurs in the name of a health metric, so \<open>heal\<close> finds no
  strategy for a critical issue; and whenever \<open>diagnose\<close> returns a non-empty list of
  critical issues only, \<open>heal\<close> returns the status \<open>no_suitable_healing_strategy\<close> with
  no action taken and leaves the engine as it was.
\<close>

theorem heal_only_critical:
  assumes "diagnose s \<noteq> []"
    and "set (diagnose s) \<subseteq> set (critical_issues (health_metrics s))"
  shows "list_all (\<lambda>i. find_strategy (core_error_type (i_type i)) = None)
           (critical_issues (health_metrics s))
         \<and> heal s = Inr (\<lparr>status = ''no_suitable_healing_strategy'', actions_taken = []\<rparr>, s)"
proof
  show c: "list_all (\<lambda>i. find_strategy (core_error_type (i_type i)) = None)
           (critical_issues (health_metrics s))"
    by (simp add: list_all_iff critical_no_strategy)
  from assms(2) have "list_all (\<lambda>i. find_strategy (core_error_type (i_type i)) = None)
      (take 3 (diagnose s))"
    by (auto simp: list_all_iff critical_no_strategy dest!: in_set_takeD)
  then have "fold heal_issue (take 3 (diagnose s)) (Inr ([], s)) = Inr ([], s)"
    by (rule fold_heal_issue_none)
  with assms(1) show "heal s =
      Inr (\<lparr>status = ''no_suitable_healing_strategy'', actions_taken = []\<rparr>, s)"
    by (simp add: heal_def Let_def mark_healed_none)
qed

theorem heal_only_critical_witness:
  "diagnose one_memory_leak \<noteq> []
   \<and> set (diagnose one_memory_leak) \<subseteq> set (critical_issues (health_metrics one_memory_leak))
   \<and> memory_integrity (health_metrics one_memory_leak) = 40
   \<and> heal one_memory_leak =
       Inr (\<lparr>status = ''no_suitable_healing_strategy'', actions_taken = []\<rparr>, one_memory_leak)"
proof -
  have d: "diagnose one_memory_leak = critical_issues (health_metrics one_memory_leak)"
    by (simp add: one_memory_leak_def SelfHealingSystem_def log_error_def
      deque_append_def Let_def diagnose_def discovered_issues_def
      critical_issues_def critical_issue_def health_items_def error_counts_of_def
      count_error_def recurring_issues_def)
  have m: "memory_integrity (health_metrics one_memory_leak) = 40"
    by (simp add: one_memory_leak_def SelfHealingSystem_def log_error_def Let_def)
  then have n: "diagnose one_memory_leak \<noteq> []"
    unfolding d by (simp add: critical_issues_def health_items_def)
  have s: "set (diagnose one_memory_leak)
      \<subseteq> set (critical_issues (health_metrics one_memory_leak))"
    unfolding d by simp
  from heal_only_critical [OF n s] n s m show ?thesis by simp
qed

subsection \<open>Health engine: the bounds of the metrics\<close>

lemma log_error_effect:
  "health_metrics (log_error s t sev d now) = error_effect t sev (health_metrics s)"
  unfolding log_error_metrics
  by (simp add: error_effect_def addressed_metric_def adjust_metric_def Let_def)

lemma log_error_lowers:
  assumes "0 \<le> sev" "metrics_ge 0 (health_metrics s)"
  shows "metrics_mono (health_metrics (log_error s t sev d now)) (health_metrics s)"
  using assms unfolding log_error_metrics
  by (simp add: metrics_mono_def metrics_ge_def Let_def)

lemma strategy_effect:
  assumes "(k, f) \<in> set recovery_strategies"
  shows "\<exists>r s'. f s sev = Inr (r, s')
           \<and> health_metrics s' =
               adjust_metric (strategy_metric k) (\<lambda>v. v + strategy_gain k sev) (health_metrics s)"
proof -
  from assms have
    "(k = ''memory_corruption'' \<and> f = heal_memory_corruption)
     \<or> (k = ''emotional_instability'' \<and> f = heal_emotional_instability)
     \<or> (k = ''resource_depletion'' \<and> f = heal_resource_depletion)
     \<or> (k = ''decision_paralysis'' \<and> f = heal_decision_paralysis)
     \<or> (k = ''communication_failure'' \<and> f = heal_communication_failure)"
    by (simp add: recovery_strategies_def)
  then show ?thesis
  proof (elim disjE conjE)
    assume "k = ''memory_corruption''" "f = heal_memory_corruption"
    then show ?thesis
      by (simp add: heal_memory_corruption_def Let_def strategy_metric_def strategy_gain_def
          adjust_metric_def)
  next
    assume k: "k = ''emotional_instability''" and f: "f = heal_emotional_instability"
    obtain r es' where "heal_emotional_instability s sev =
       Inr (r, s\<lparr>agent := (agent s)\<lparr>emotional_state := es'\<rparr>,
                 health_metrics :=
                   (health_metrics s)\<lparr>emotional_balance :=
                      emotional_balance (health_metrics s) + min 25 (sev * 2.5)\<rparr>\<rparr>)"
      using heal_emotional_instability_result by blast
    with k f show ?thesis
      by (simp add: strategy_metric_def strategy_gain_def adjust_metric_def)
  next
    assume "k = ''resource_depletion''" "f = heal_resource_depletion"
    then show ?thesis
      by (simp add: heal_resource_depletion_def Let_def strategy_metric_def strategy_gain_def
          adjust_metric_def)
  next
    assume "k = ''decision_paralysis''" "f = heal_decision_paralysis"
    then show ?thesis
      by (simp add: heal_decision_paralysis_def Let_def strategy_metric_def strategy_gain_def
          adjust_metric_def)
  next
    assume "k = ''communication_failure''" "f = heal_communication_failure"
    then show ?thesis
      by (simp add: heal_communication_failure_def Let_def strategy_metric_def
          strategy_gain_def adjust_metric_def)
  qed
qed

lemma heal_issue_effect:
  "\<exists>acts' s'. heal_issue iss (Inr (acts, s)) = Inr (acts', s')
           \<and> health_metrics s' = issue_effect iss (health_metrics s)"
proof (cases "find_strategy (core_error_type (i_type iss))")
  case None
  then show ?thesis by (simp add: heal_issue_def issue_effect_def)
next
  case (Some kf)
  obtain k f where kf: "kf = (k, f)" by (cases kf)
  with Some have "(k, f) \<in> set recovery_strategies"
    unfolding find_strategy_def by (metis find_Some_iff nth_mem)
  from strategy_effect [OF this, of s "i_severity iss"] obtain r s' where
    "f s (i_severity iss) = Inr (r, s')"
    "health_metrics s' =
       adjust_metric (strategy_metric k) (\<lambda>v. v + strategy_gain k (i_severity iss))
         (health_metrics s)"
    by blast
  with Some kf show ?thesis by (simp add: heal_issue_def issue_effect_def)
qed

lemma fold_heal_issue_effect:
  "\<exists>acts' s'. fold heal_issue iss (Inr (acts, s)) = Inr (acts', s')
           \<and> health_metrics s' = fold issue_effect iss (health_metrics s)"
proof (induction iss arbitrary: acts s)
  case Nil
  then show ?case by simp
next
  case (Cons i iss)
  from heal_issue_effect [of i acts s] obtain acts1 s1 where
    1: "heal_issue i (Inr (acts, s)) = Inr (acts1, s1)"
       "health_metrics s1 = issue_effect i (health_metrics s)" by blast
  from Cons.IH [of acts1 s1] obtain acts' s' where
    2: "fold heal_issue iss (Inr (acts1, s1)) = Inr (acts', s')"
       "health_metrics s' = fold issue_effect iss (health_metrics s1)" by blast
  from 1 2 show ?case by simp
qed

lemma heal_effect:
  "\<exists>r s'. heal s = Inr (r, s')
         \<and> health_metrics s' = fold issue_effect (take 3 (diagnose s)) (health_metrics s)"
proof (cases "diagnose s = []")
  case True
  then show ?thesis by (simp add: heal_def)
next
  case False
  from fold_heal_issue_effect [of "take 3 (diagnose s)" "[]" s] obtain acts s1 where
    "fold heal_issue (take 3 (diagnose s)) (Inr ([], s)) = Inr (acts, s1)"
    "health_metrics s1 = fold issue_effect (take 3 (diagnose s)) (health_metrics s)" by blast
  with False show ?thesis by (simp add: heal_def Let_def)
qed

text \<open>
  C1 (as amended). From a fresh engine, every sequence of \<open>log_error\<close> calls with
  non-negative severities and \<open>heal\<close> calls runs without an exception and leaves each of
  the five health metrics at least 0, and at most 100 as long as the sequence contains
  no \<open>heal\<close>. In the state reached, a further \<open>log_error\<close> changes the metrics exactly by
  lowering the metric its error type addresses, if any, by the severity, floored at 0;
  with a non-negative severity no metric rises. A further \<open>heal\<close> returns, and changes
  the metrics exactly by adding, for each of the first three issues of \<open>diagnose\<close> that
  has a strategy, the gain of that strategy to its metric; no metric falls. The sum is
  not clamped, so no upper bound is stated once \<open>heal\<close> has run: an error type
  outside the table of \<open>log_error\<close> lowers nothing and is healed all the same, and
  in the code's double arithmetic a gain can exceed by a rounding error what the errors
  healed had taken off.
\<close>

theorem health_metrics_bounds:
  assumes "list_all nonneg_severity ops"
  shows "\<exists>s. run_ops (SelfHealingSystem ag) ops = Inr s
           \<and> metrics_ge 0 (health_metrics s)
           \<and> (if list_all is_log_error ops then metrics_le (health_metrics s) 100 else True)
           \<and> health_metrics (log_error s t sev d now) = error_effect t sev (health_metrics s)
           \<and> (if 0 \<le> sev
               then metrics_mono (health_metrics (log_error s t sev d now)) (health_metrics s)
               else True)
           \<and> (\<exists>r s'. heal s = Inr (r, s')
                 \<and> health_metrics s'
                     = fold issue_effect (take 3 (diagnose s)) (health_metrics s)
                 \<and> metrics_mono (health_metrics s) (health_metrics s'))"
proof -
  have i: "healthy_inv (SelfHealingSystem ag)"
    by (simp add: healthy_inv_def SelfHealingSystem_def metrics_ge_def)
  have l: "metrics_le (health_metrics (SelfHealingSystem ag)) 100"
    by (simp add: SelfHealingSystem_def metrics_le_def)
  from run_ops_inv [OF assms i] obtain s where
    s: "run_ops (SelfHealingSystem ag) ops = Inr s" and h: "healthy_inv s" by blast
  from h have g: "metrics_ge 0 (health_metrics s)" by (simp add: healthy_inv_def)
  have u: "metrics_le (health_metrics s) 100" if "list_all is_log_error ops"
    using run_ops_log_only [OF assms that l s] .
  have m: "metrics_mono (health_metrics (log_error s t sev d now)) (health_metrics s)"
    if "0 \<le> sev"
    using that g by (rule log_error_lowers)
  from heal_ok [OF h] obtain r s' where
    r: "heal s = Inr (r, s')" "metrics_mono (health_metrics s) (health_metrics s')" by blast
  with heal_effect [of s]
  have e: "health_metrics s' = fold issue_effect (take 3 (diagnose s)) (health_metrics s)"
    by auto
  from s g u m r e show ?thesis by (simp add: log_error_effect)
qed

theorem health_metrics_bounds_witness:
  "list_all nonneg_severity recurring_errors_then_heal
   \<and> (\<exists>s. run_ops (SelfHealingSystem ARIELAgent) recurring_errors_then_heal = Inr s
          \<and> metrics_ge 0 (health_metrics s)
          \<and> memory_integrity (health_metrics s) = 70
          \<and> health_metrics (log_error s ''memory_leak'' 5 [] 4)
              = error_effect ''memory_leak'' 5 (health_metrics s)
          \<and> memory_integrity (health_metrics (log_error s ''memory_leak'' 5 [] 4)) = 65)"
proof -
  have h: "list_all nonneg_severity recurring_errors_then_heal"
    by (simp add: recurring_errors_then_heal_def)
  have v: "\<exists>s. run_ops (SelfHealingSystem ARIELAgent) recurring_errors_then_heal = Inr s
      \<and> memory_integrity (health_metrics s) = 70"
    by (simp add: recurring_errors_then_heal_def SelfHealingSystem_def log_error_def
      deque_append_def Let_def heal_def diagnose_def discovered_issues_def
      critical_issues_def critical_issue_def health_items_def error_counts_of_def
      count_error_def recurring_issues_def recurring_issue_def replace_underscore_def
      heal_issue_def find_strategy_def recovery_strategies_def core_error_type_def
      heal_memory_corruption_def)
  from health_metrics_bounds [OF h, of ARIELAgent "''memory_leak''" 5 "[]" 4] h v
  show ?thesis by (auto simp: log_error_metrics Let_def)
qed

text \<open>
  C1 (as stated) fails: after three errors of type \<open>quantum_memory_corruption\<close> and
  severity 5, which lower no metric, \<open>heal\<close> runs the memory corruption strategy for
  the recurring issue and takes \<open>memory_integrity\<close> from 100 to 110.
\<close>

theorem health_metric_exceeds_100:
  "\<exists>s'. run_ops (SelfHealingSystem ARIELAgent) quantum_errors_then_heal = Inr s'
      \<and> memory_integrity (health_metrics s') = 110
      \<and> \<not> memory_integrity (health_metrics s') \<le> 100"
  by (simp add: quantum_errors_then_heal_def SelfHealingSystem_def log_error_def
      deque_append_def Let_def heal_def diagnose_def discovered_issues_def
      critical_issues_def critical_issue_def health_items_def error_counts_of_def
      count_error_def recurring_issues_def recurring_issue_def replace_underscore_def
      heal_issue_def find_strategy_def recovery_strategies_def core_error_type_def
      heal_memory_corruption_def)

subsection \<open>Warp system: combining the outputs of the teams\<close>

lemma np_average_two:
  assumes "length a = length b"
  shows "np_average [a, b] [0.1, 0.2] = Inr (map2 (\<lambda>x y. (0.1 * x + 0.2 * y) / (0.1 + 0.2)) a b)"
proof -
  have "map (\<lambda>j. (a ! j * (1/10) + b ! j * (2/10)) / (3/10)) [0..<length a]
      = map2 (\<lambda>x y. (0.1 * x + 0.2 * y) / (0.1 + 0.2)) a b"
    using assms by (intro nth_equalityI) (simp_all add: mult.commute)
  with assms show ?thesis
    by (simp add: np_average_def row_length_def)
qed

text \<open>
  C3 (as amended). With exactly two active teams producing the outputs \<open>a\<close> and \<open>b\<close>
  and the light-speed flag off, \<open>process_with_warp\<close> returns the weighted average with
  the weights 0.1 and 0.2 normalised by their sum, elementwise (0.1 a + 0.2 b) / 0.3,
  unless the diversity check on the updated history raises, in which case the call
  raises the same exception.
\<close>

theorem process_with_warp_two_teams:
  assumes "get_active_teams ws = [t1, t2]"
    and "\<not> is_light_speed ws"
    and "length (elements (proc t1 x)) = length (elements (proc t2 x))"
  shows "process_with_warp proc ws x =
           (case is_low (tracker_update (task_diversity ws) x) of
              Inl err \<Rightarrow> Inl err
            | Inr low \<Rightarrow>
                Inr (map2 (\<lambda>a b. (0.1 * a + 0.2 * b) / (0.1 + 0.2))
                       (elements (proc t1 x)) (elements (proc t2 x)),
                     ws\<lparr>task_diversity := tracker_update (task_diversity ws) x\<rparr>))"
  using assms np_average_two [OF assms(3)]
  by (simp add: process_with_warp_def Let_def combine_phase_results_def split: sum.splits)

theorem process_with_warp_two_teams_witness:
  "get_active_teams two_active_teams =
      [(Team ''Initialization'')\<lparr>is_active := True\<rparr>,
       (Team ''Capturing Cohesion'')\<lparr>is_active := True\<rparr>]
   \<and> \<not> is_light_speed two_active_teams
   \<and> elements (doubling_process ((Team ''Initialization'')\<lparr>is_active := True\<rparr>)
        (PyTuple [3, 6])) = [3, 6]
   \<and> elements (doubling_process ((Team ''Capturing Cohesion'')\<lparr>is_active := True\<rparr>)
        (PyTuple [3, 6])) = [6, 12]
   \<and> (\<exists>ws'. process_with_warp doubling_process two_active_teams (PyTuple [3, 6])
                = Inr ([5, 10], ws'))"
proof -
  let ?t1 = "(Team ''Initialization'')\<lparr>is_active := True\<rparr>"
  let ?t2 = "(Team ''Capturing Cohesion'')\<lparr>is_active := True\<rparr>"
  have a: "get_active_teams two_active_teams = [?t1, ?t2]"
    by (simp add: get_active_teams_def two_active_teams_def Team_def)
  have l: "\<not> is_light_speed two_active_teams"
    by (simp add: two_active_teams_def WarpSystem_def)
  have e1: "elements (doubling_process ?t1 (PyTuple [3, 6])) = [3, 6]"
    by (simp add: doubling_process_def Team_def)
  have e2: "elements (doubling_process ?t2 (PyTuple [3, 6])) = [6, 12]"
    by (simp add: doubling_process_def Team_def)
  have e: "length (elements (doubling_process ?t1 (PyTuple [3, 6])))
         = length (elements (doubling_process ?t2 (PyTuple [3, 6])))"
    by (simp add: e1 e2)
  have d: "is_low (tracker_update (task_diversity two_active_teams) (PyTuple [3, 6]))
         = Inr False"
    by (simp add: is_low_def tracker_update_def two_active_teams_def WarpSystem_def
        TaskDiversityTracker_def Let_def)
  from process_with_warp_two_teams
         [where proc = doubling_process and x = "PyTuple [3, 6]", OF a l e] a l e1 e2 d
  show ?thesis by simp
qed

text \<open>
  C3 (as stated) fails: with the first two teams active and the input (1), both teams
  return (1) and the combined result is (1), not 0.1 * 1 + 0.2 * 1 = 0.3.
\<close>

theorem process_with_warp_not_unnormalized:
  "(\<exists>ws'. process_with_warp team_process two_active_teams (PyTuple [1]) = Inr ([1], ws'))
   \<and> \<not> (\<exists>ws'. process_with_warp team_process two_active_teams (PyTuple [1])
                = Inr ([0.1 * 1 + 0.2 * 1], ws'))"
  by (simp add: process_with_warp_def Let_def combine_phase_results_def np_average_def
      row_length_def get_active_teams_def two_active_teams_def Team_def team_process_def
      WarpSystem_def is_low_def tracker_update_def TaskDiversityTracker_def)

subsection \<open>Warp system: the orchestrator loop\<close>

lemma check_team_efficiency_phase:
  "check_team_efficiency ev st nm th d = Inr (b, st') \<Longrightarrow> phase (fst st') = phase (fst st)"
  by (auto simp: check_team_efficiency_def time_now_def split: prod.splits sum.splits if_splits)

lemma transitions_initial:
  assumes "phase (fst st) = PInt 1"
  shows "(\<exists>st'. transitions ev st = Continue st' \<and> phase (fst st') = PInt 1)
         \<or> (\<exists>err. transitions ev st = Raise err)"
proof (cases "phase_condition ev st 1 ''team1''")
  case (Inl err)
  then show ?thesis by (simp add: transitions_def)
next
  case (Inr r)
  obtain b st1 where r: "r = (b, st1)" by (cases r)
  with Inr assms have p: "phase (fst st1) = PInt 1"
    by (auto simp: phase_condition_def phase_eq_def dest: check_team_efficiency_phase)
  show ?thesis
  proof (cases b)
    case True
    with Inr r p show ?thesis
      by (cases st1) (simp add: transitions_def advance_def advance_phase_def phase_dot_value_def)
  next
    case False
    with Inr r p show ?thesis
      by (simp add: transitions_def phase_condition_def phase_eq_def)
  qed
qed

lemma tick_initial:
  assumes "phase (fst st) = PInt 1"
  shows "(\<exists>st'. tick ev st = Continue st' \<and> phase (fst st') = PInt 1)
         \<or> (\<exists>err. tick ev st = Raise err)"
proof -
  obtain ws w where st: "st = (ws, w)" by (cases st)
  obtain ov w1 where o: "is_overloaded ev (resource_monitor ws) w = (ov, w1)"
    by (cases "is_overloaded ev (resource_monitor ws) w")
  obtain t w2 where t: "time_now ev w1 = (t, w2)" by (cases "time_now ev w1")
  show ?thesis
  proof (cases ov)
    case True
    with st o assms show ?thesis by (simp add: tick_def)
  next
    case False
    show ?thesis
    proof (cases "t - current_phase_start_time ws > stability_check_interval ws
                     \<and> \<not> check_stability ws")
      case True
      with st o t False assms show ?thesis
        by (simp add: tick_def revert_phase_def phase_dot_value_def)
    next
      case nr: False
      from assms st have "phase (fst (ws, w2)) = PInt 1" by simp
      from transitions_initial [OF this, of ev] st o t False nr show ?thesis
        by (auto simp: tick_def)
    qed
  qed
qed

lemma process_phase_initial:
  "phase (fst st) = PInt 1 \<Longrightarrow>
     (case process_phase ev n st of
        Running st' \<Rightarrow> phase (fst st') = PInt 1
      | Raised err \<Rightarrow> True
      | Halted st' \<Rightarrow> False)"
proof (induction n arbitrary: st)
  case 0
  then show ?case by simp
next
  case (Suc n)
  from tick_initial [OF Suc.prems, of ev] show ?case
  proof
    assume "\<exists>st1. tick ev st = Continue st1 \<and> phase (fst st1) = PInt 1"
    then obtain st1 where "tick ev st = Continue st1" "phase (fst st1) = PInt 1" by blast
    with Suc.IH [of st1] show ?thesis by simp
  next
    assume "\<exists>err. tick ev st = Raise err"
    then show ?thesis by auto
  qed
qed

lemma set_team_active_phase: "phase (set_team_active ws nm b) = phase ws"
  by (simp add: set_team_active_def)

text \<open>
  Remark (liveness). \<open>start_warp_sequence\<close> sets the phase to the integer
  \<open>WarpPhase.INITIALIZATION\<close>. With team 1 at efficiency 0.9 for more than 3 seconds
  the first round calls \<open>_advance_phase\<close>, which raises \<open>AttributeError\<close> on
  \<open>self.phase.value\<close>. In general no run started by \<open>start_warp_sequence\<close> reaches
  the terminal action: whatever the clock, the load and the system, the loop is either
  still running in phase 1 or has ended in an exception.
\<close>

lemma warp_sequence_never_completes:
  "start_warp_sequence quiet_env (Suc n) (efficient_team1, new_world) = Raised AttributeError
   \<and> (\<forall>ev k st.
         case start_warp_sequence ev k st of
           Running st' \<Rightarrow> phase (fst st') = PInt 1
         | Raised err \<Rightarrow> True
         | Halted st' \<Rightarrow> False)"
proof
  show "start_warp_sequence quiet_env (Suc n) (efficient_team1, new_world) = Raised AttributeError"
    by (simp add: start_warp_sequence_def Let_def get_team_def efficient_team1_def
        WarpSystem_def Team_def time_now_def quiet_env_def new_world_def set_team_active_def
        tick_def is_overloaded_def check_stability_def transitions_def phase_condition_def phase_eq_def
        check_team_efficiency_def advance_def advance_phase_def phase_dot_value_def)
  show "\<forall>ev k st.
         case start_warp_sequence ev k st of
           Running st' \<Rightarrow> phase (fst st') = PInt 1
         | Raised err \<Rightarrow> True
         | Halted st' \<Rightarrow> False"
  proof (intro allI)
    fix ev k and st :: loop_state
    obtain ws w where st: "st = (ws, w)" by (cases st)
    show "case start_warp_sequence ev k st of
           Running st' \<Rightarrow> phase (fst st') = PInt 1
         | Raised err \<Rightarrow> True
         | Halted st' \<Rightarrow> False"
    proof (cases "get_team (ws\<lparr>phase := PInt 1\<rparr>) ''team1''")
      case (Inl err)
      then show ?thesis by (simp add: st start_warp_sequence_def Let_def)
    next
      case (Inr tm)
      obtain t w1 where t: "time_now ev w = (t, w1)" by (cases "time_now ev w")
      have "phase (fst ((set_team_active (ws\<lparr>phase := PInt 1\<rparr>) ''team1'' True)
                \<lparr>current_phase_start_time := t\<rparr>, w1)) = PInt 1"
        by (simp add: set_team_active_phase)
      from process_phase_initial [OF this, of ev k] Inr t show ?thesis
        by (simp add: st start_warp_sequence_def Let_def)
    qed
  qed
qed

lemma WarpPhase_range: "WarpPhase v = Inr p \<Longrightarrow> phase_in_range p"
  by (auto simp: WarpPhase_def phase_in_range_def phase_number_def split: if_splits)

lemma advance_phase_range:
  "advance_phase ev st = Inr st' \<Longrightarrow> phase_in_range (phase (fst st'))"
  by (auto simp: advance_phase_def Let_def set_team_active_phase time_now_def
      split: prod.splits sum.splits dest: WarpPhase_range)



lemma advance_range:
  "case advance ev st of
     Continue st' \<Rightarrow> phase_in_range (phase (fst st'))
   | Break st' \<Rightarrow> False
   | Raise err \<Rightarrow> True"
  by (auto simp: advance_def split: sum.splits dest: advance_phase_range)











end
